theory Spec2Isabelle
  imports Complex_Main "HOL-Library.Code_Target_Numeral"
begin

section \<open>Python text primitives used by script.py\<close>

text \<open>
  Text is a \<open>string\<close>: a list of characters with the code points 0 to 255, the first 256
  code points of Unicode. Python's \<open>str\<close> methods and the \<open>re\<close> module are Unicode aware:
  in this range \<open>str.isspace\<close> (and \<open>\s\<close>) holds for the code points 9-13, 28-32, 133 and
  160 (the no-break space), \<open>\d\<close> matches the digits 0-9 only, and \<open>str.lower\<close> maps A-Z and
  the capital letters 192-222 (apart from the multiplication sign 215) to the code point
  32 above. Text with code points above 255 is outside the model.

  A Python \<open>float\<close> is an IEEE-754 double: \<open>Finite q\<close> holds the exact value \<open>q\<close> of a finite
  double other than the negative zero. Reading a literal and multiplying round the exact
  result to the nearest double, ties to the even significand, and overflow to infinity.
\<close>

datatype py_error = ValueError | IndexError | ZeroDivisionError

definition is_space :: "char \<Rightarrow> bool" where
  "is_space c =
     (let n = (of_char c :: nat)
      in (9 \<le> n \<and> n \<le> 13) \<or> (28 \<le> n \<and> n \<le> 32) \<or> n = 133 \<or> n = 160)"

definition is_digit :: "char \<Rightarrow> bool" where
  "is_digit c = (let n = (of_char c :: nat) in 48 \<le> n \<and> n \<le> 57)"

definition digit_val :: "char \<Rightarrow> nat" where
  "digit_val c = of_char c - 48"

definition lower_char :: "char \<Rightarrow> char" where
  "lower_char c =
     (case map_of (zip ''ABCDEFGHIJKLMNOPQRSTUVWXYZ'' ''abcdefghijklmnopqrstuvwxyz'') c of
        None \<Rightarrow>
          (let n = (of_char c :: nat)
           in if 192 \<le> n \<and> n \<le> 222 \<and> n \<noteq> 215 then char_of (n + 32) else c)
      | Some l \<Rightarrow> l)"

text \<open>\<open>s.lower()\<close>\<close>
definition lower :: "string \<Rightarrow> string" where
  "lower s = map lower_char s"

text \<open>\<open>s.strip()\<close>\<close>
definition strip :: "string \<Rightarrow> string" where
  "strip s = rev (dropWhile is_space (rev (dropWhile is_space s)))"

text \<open>\<open>s.rstrip('/')\<close>: removes every trailing occurrence of the character.\<close>
definition rstrip_char :: "char \<Rightarrow> string \<Rightarrow> string" where
  "rstrip_char c s = rev (dropWhile (\<lambda>x. x = c) (rev s))"

text \<open>\<open>s.replace(c, r)\<close> for a one-character pattern \<open>c\<close>.\<close>
definition replace_char :: "char \<Rightarrow> string \<Rightarrow> string \<Rightarrow> string" where
  "replace_char c r s = concat (map (\<lambda>x. if x = c then r else [x]) s)"

fun starts_with :: "string \<Rightarrow> string \<Rightarrow> bool" where
  "starts_with [] s = True"
| "starts_with (p # ps) [] = False"
| "starts_with (p # ps) (x # xs) = (p = x \<and> starts_with ps xs)"

text \<open>\<open>sub in s\<close>\<close>
fun contains :: "string \<Rightarrow> string \<Rightarrow> bool" where
  "contains sub [] = (sub = [])"
| "contains sub (x # xs) = (starts_with sub (x # xs) \<or> contains sub xs)"

text \<open>
  The maximal runs of characters satisfying \<open>p\<close>, left to right; \<open>acc\<close> holds the run being
  read, reversed. Both \<open>s.split()\<close> (runs of non-whitespace) and
  \<open>re.findall(r'[\d.]+', s)\<close> (runs of digits and points) are instances.
\<close>
fun runs :: "(char \<Rightarrow> bool) \<Rightarrow> string \<Rightarrow> string \<Rightarrow> string list" where
  "runs p acc [] = (if acc = [] then [] else [rev acc])"
| "runs p acc (x # xs) =
     (if p x then runs p (x # acc) xs
      else (if acc = [] then [] else [rev acc]) @ runs p [] xs)"

text \<open>\<open>s.split()\<close>\<close>
definition split_ws :: "string \<Rightarrow> string list" where
  "split_ws s = runs (\<lambda>c. \<not> is_space c) [] s"

text \<open>
  \<open>s.split(sep)\<close>: cuts at every occurrence of the separator, scanning left to right;
  \<open>w\<close> holds the piece being read, reversed. Python raises ValueError for an empty
  separator.
\<close>
function split_loop :: "string \<Rightarrow> string \<Rightarrow> string \<Rightarrow> string list" where
  "split_loop sep w s =
     (if sep = [] then []
      else if s = [] then [rev w]
      else if starts_with sep s then rev w # split_loop sep [] (drop (length sep) s)
      else split_loop sep (hd s # w) (tl s))"
  by pat_completeness auto
termination
  by (relation "measure (\<lambda>(sep, w, s). length s)") auto

declare split_loop.simps [simp del]

definition split_sep :: "string \<Rightarrow> string \<Rightarrow> py_error + string list" where
  "split_sep sep s = (if sep = [] then Inl ValueError else Inr (split_loop sep [] s))"

text \<open>\<open>sep.join(xs)\<close>\<close>
fun join :: "string \<Rightarrow> string list \<Rightarrow> string" where
  "join sep [] = []"
| "join sep [x] = x"
| "join sep (x # y # ys) = x @ sep @ join sep (y # ys)"

subsection \<open>\<open>int()\<close> and \<open>float()\<close> on text\<close>

text \<open>
  \<open>digitpart ::= digit (["_"] digit)*\<close> of the Python grammar for numeric text: digits
  with single underscores between them.
\<close>
definition valid_digitpart :: "string \<Rightarrow> bool" where
  "valid_digitpart s =
     (s \<noteq> [] \<and> list_all (\<lambda>c. is_digit c \<or> c = CHR ''_'') s \<and> is_digit (hd s) \<and>
      is_digit (last s) \<and> \<not> contains ''__'' s)"

definition digits_value :: "string \<Rightarrow> nat" where
  "digits_value s = foldl (\<lambda>a c. 10 * a + digit_val c) 0 (filter is_digit s)"

definition digitpart :: "string \<Rightarrow> nat option" where
  "digitpart s = (if valid_digitpart s then Some (digits_value s) else None)"

text \<open>
  \<open>int(s)\<close> in base 10: surrounding whitespace is stripped, then \<open>[sign] digitpart\<close>.
  (The length limit that recent interpreters put on the digit string is not modelled.)
\<close>
definition py_int :: "string \<Rightarrow> py_error + int" where
  "py_int s0 =
     (let s = strip s0;
          neg = (s \<noteq> [] \<and> hd s = CHR ''-'');
          body = (if s \<noteq> [] \<and> (hd s = CHR ''-'' \<or> hd s = CHR ''+'') then tl s else s)
      in case digitpart body of
           None \<Rightarrow> Inl ValueError
         | Some n \<Rightarrow> Inr (if neg then - int n else int n))"

datatype pyfloat = Finite rat | NegZero | PosInf | NegInf | NaN

definition pow10 :: "int \<Rightarrow> rat" where
  "pow10 e = (if 0 \<le> e then 10 ^ nat e else 1 / 10 ^ nat (- e))"

definition pow2 :: "int \<Rightarrow> rat" where
  "pow2 e = (if 0 \<le> e then 2 ^ nat e else 1 / 2 ^ nat (- e))"

text \<open>The number of binary digits of a natural number (\<open>int.bit_length\<close>).\<close>
function bit_length :: "nat \<Rightarrow> nat" where
  "bit_length n = (if n = 0 then 0 else Suc (bit_length (n div 2)))"
  by pat_completeness auto
termination
  by (relation "measure id") auto

declare bit_length.simps [simp del]

text \<open>For \<open>0 < q\<close>, the integer \<open>k\<close> with \<open>2 ^ k \<le> q < 2 ^ (k + 1)\<close>.\<close>
definition floor_log2 :: "rat \<Rightarrow> int" where
  "floor_log2 q =
     (if 1 \<le> q then int (bit_length (nat \<lfloor>q\<rfloor>)) - 1
      else - int (bit_length (nat (\<lceil>1 / q\<rceil> - 1))))"

text \<open>The nearest integer, the even one of two that are equally near.\<close>
definition round_half_even :: "rat \<Rightarrow> int" where
  "round_half_even q =
     (let f = \<lfloor>q\<rfloor>; r = q - of_int f
      in if r < 1 / 2 then f else if 1 / 2 < r then f + 1 else if even f then f else f + 1)"

text \<open>
  The double nearest to \<open>q\<close>, for \<open>0 < q\<close>. A double is \<open>m * 2 ^ e\<close> with \<open>m < 2 ^ 53\<close> and
  \<open>- 1074 \<le> e \<le> 971\<close>; the exponent is the least one that leaves \<open>q / 2 ^ e\<close> below \<open>2 ^ 53\<close>,
  or \<open>- 1074\<close> for the subnormal numbers. A result of \<open>2 ^ 1024\<close> or more is infinity.
\<close>
definition round_pos :: "rat \<Rightarrow> pyfloat" where
  "round_pos q =
     (let e = max (floor_log2 q - 52) (- 1074);
          m = round_half_even (q / pow2 e)
      in if 2 ^ 1024 \<le> of_int m * pow2 e then PosInf else Finite (of_int m * pow2 e))"

fun float_neg :: "pyfloat \<Rightarrow> pyfloat" where
  "float_neg (Finite q) = (if q = 0 then NegZero else Finite (- q))"
| "float_neg NegZero = Finite 0"
| "float_neg PosInf = NegInf"
| "float_neg NegInf = PosInf"
| "float_neg NaN = NaN"

definition with_sign :: "bool \<Rightarrow> pyfloat \<Rightarrow> pyfloat" where
  "with_sign neg x = (if neg then float_neg x else x)"

definition round_double :: "rat \<Rightarrow> pyfloat" where
  "round_double q =
     (if q = 0 then Finite 0
      else if 0 < q then round_pos q
      else float_neg (round_pos (- q)))"

text \<open>\<open>number ::= [digitpart] "." digitpart | digitpart ["."]\<close>\<close>
definition mantissa :: "string \<Rightarrow> rat option" where
  "mantissa m =
     (let ip = takeWhile (\<lambda>c. c \<noteq> CHR ''.'') m;
          r = dropWhile (\<lambda>c. c \<noteq> CHR ''.'') m
      in if r = [] then map_option of_nat (digitpart ip)
         else let fp = tl r
              in if (ip = [] \<or> valid_digitpart ip) \<and> (fp = [] \<or> valid_digitpart fp) \<and>
                    \<not> (ip = [] \<and> fp = [])
                 then Some (of_nat (digits_value ip) +
                            of_nat (digits_value fp) / 10 ^ length (filter is_digit fp))
                 else None)"

text \<open>\<open>exponent ::= ("e" | "E") [sign] digitpart\<close>, here after the letter.\<close>
definition exponent :: "string \<Rightarrow> int option" where
  "exponent x =
     (let neg = (x \<noteq> [] \<and> hd x = CHR ''-'');
          body = (if x \<noteq> [] \<and> (hd x = CHR ''-'' \<or> hd x = CHR ''+'') then tl x else x)
      in map_option (\<lambda>n. if neg then - int n else int n) (digitpart body))"

definition is_e :: "char \<Rightarrow> bool" where
  "is_e c = (c = CHR ''e'' \<or> c = CHR ''E'')"

text \<open>\<open>floatnumber ::= number [exponent]\<close>\<close>
definition float_number :: "string \<Rightarrow> rat option" where
  "float_number body =
     (let m = takeWhile (\<lambda>c. \<not> is_e c) body;
          r = dropWhile (\<lambda>c. \<not> is_e c) body
      in case mantissa m of
           None \<Rightarrow> None
         | Some q \<Rightarrow>
             (if r = [] then Some q
              else case exponent (tl r) of None \<Rightarrow> None | Some e \<Rightarrow> Some (q * pow10 e)))"

text \<open>
  \<open>float(s)\<close>: surrounding whitespace is stripped, then
  \<open>[sign] (floatnumber | "inf" | "infinity" | "nan")\<close>, the words in any letter case.
\<close>
definition py_float :: "string \<Rightarrow> py_error + pyfloat" where
  "py_float s0 =
     (let s = strip s0;
          neg = (s \<noteq> [] \<and> hd s = CHR ''-'');
          body = (if s \<noteq> [] \<and> (hd s = CHR ''-'' \<or> hd s = CHR ''+'') then tl s else s);
          lb = lower body
      in if lb = ''inf'' \<or> lb = ''infinity'' then Inr (if neg then NegInf else PosInf)
         else if lb = ''nan'' then Inr NaN
         else case float_number body of
                None \<Rightarrow> Inl ValueError
              | Some q \<Rightarrow> Inr (with_sign neg (round_double q)))"

text \<open>The sign bit of a float, and its absolute value when it is finite.\<close>
fun float_sign :: "pyfloat \<Rightarrow> bool" where
  "float_sign (Finite q) = (q < 0)"
| "float_sign NegZero = True"
| "float_sign PosInf = False"
| "float_sign NegInf = True"
| "float_sign NaN = False"

fun magnitude :: "pyfloat \<Rightarrow> rat option" where
  "magnitude (Finite q) = Some \<bar>q\<bar>"
| "magnitude NegZero = Some 0"
| "magnitude x = None"

text \<open>
  \<open>x * y\<close> for two floats: the exact product rounded to the nearest double; the sign is the
  product of the signs; zero times infinity is not a number.
\<close>
definition float_mul :: "pyfloat \<Rightarrow> pyfloat \<Rightarrow> pyfloat" where
  "float_mul x y =
     (if x = NaN \<or> y = NaN then NaN
      else let neg = (float_sign x \<noteq> float_sign y)
           in case (magnitude x, magnitude y) of
                (Some a, Some b) \<Rightarrow> with_sign neg (round_double (a * b))
              | (Some a, None) \<Rightarrow> if a = 0 then NaN else with_sign neg PosInf
              | (None, Some b) \<Rightarrow> if b = 0 then NaN else with_sign neg PosInf
              | (None, None) \<Rightarrow> with_sign neg PosInf)"

text \<open>
  \<open>x < n\<close> and \<open>x >= n\<close> for a float \<open>x\<close> and an integer \<open>n\<close>: Python compares the exact
  values; every comparison with a NaN is false.
\<close>
fun float_lt_int :: "pyfloat \<Rightarrow> int \<Rightarrow> bool" where
  "float_lt_int (Finite q) n = (q < of_int n)"
| "float_lt_int NegZero n = (0 < n)"
| "float_lt_int NegInf n = True"
| "float_lt_int PosInf n = False"
| "float_lt_int NaN n = False"

fun float_ge_int :: "pyfloat \<Rightarrow> int \<Rightarrow> bool" where
  "float_ge_int (Finite q) n = (of_int n \<le> q)"
| "float_ge_int NegZero n = (n \<le> 0)"
| "float_ge_int NegInf n = False"
| "float_ge_int PosInf n = True"
| "float_ge_int NaN n = False"

subsection \<open>The two regular expressions of \<open>convert_price_to_number\<close>\<close>

text \<open>
  A pattern is a sequence of items: a character class under a greedy quantifier, or an
  optional literal. \<open>rmatch\<close> is the backtracking matcher anchored at the start of the text:
  a greedy item first takes as much as it can and gives characters back only when the rest
  of the pattern fails. It returns the text matched by each item.
\<close>

datatype quant = One | Opt | Star | Plus

datatype item = Cls "char \<Rightarrow> bool" quant | OptLit string

fun rmatch :: "item list \<Rightarrow> string \<Rightarrow> string list option" where
  "rmatch [] s = Some []"
| "rmatch (Cls c One # is) [] = None"
| "rmatch (Cls c One # is) (x # xs) =
     (if c x then map_option (\<lambda>ps. [x] # ps) (rmatch is xs) else None)"
| "rmatch (Cls c Opt # is) [] = map_option (\<lambda>ps. [] # ps) (rmatch is [])"
| "rmatch (Cls c Opt # is) (x # xs) =
     (if c x then
        (case rmatch is xs of
           Some ps \<Rightarrow> Some ([x] # ps)
         | None \<Rightarrow> map_option (\<lambda>ps. [] # ps) (rmatch is (x # xs)))
      else map_option (\<lambda>ps. [] # ps) (rmatch is (x # xs)))"
| "rmatch (Cls c Star # is) [] = map_option (\<lambda>ps. [] # ps) (rmatch is [])"
| "rmatch (Cls c Star # is) (x # xs) =
     (if c x then
        (case rmatch (Cls c Star # is) xs of
           Some (p # ps) \<Rightarrow> Some ((x # p) # ps)
         | _ \<Rightarrow> map_option (\<lambda>ps. [] # ps) (rmatch is (x # xs)))
      else map_option (\<lambda>ps. [] # ps) (rmatch is (x # xs)))"
| "rmatch (Cls c Plus # is) [] = None"
| "rmatch (Cls c Plus # is) (x # xs) =
     (if c x then
        (case rmatch (Cls c Star # is) xs of
           Some (p # ps) \<Rightarrow> Some ((x # p) # ps)
         | _ \<Rightarrow> None)
      else None)"
| "rmatch (OptLit l # is) s =
     (if starts_with l s then
        (case rmatch is (drop (length l) s) of
           Some ps \<Rightarrow> Some (l # ps)
         | None \<Rightarrow> map_option (\<lambda>ps. [] # ps) (rmatch is s))
      else map_option (\<lambda>ps. [] # ps) (rmatch is s))"

text \<open>What an item can match: used to describe the pieces \<open>rmatch\<close> returns.\<close>
fun conforms :: "item \<Rightarrow> string \<Rightarrow> bool" where
  "conforms (Cls c One) p = (length p = 1 \<and> list_all c p)"
| "conforms (Cls c Opt) p = (length p \<le> 1 \<and> list_all c p)"
| "conforms (Cls c Star) p = list_all c p"
| "conforms (Cls c Plus) p = (p \<noteq> [] \<and> list_all c p)"
| "conforms (OptLit l) p = (p = [] \<or> p = l)"

text \<open>\<open>re.search\<close>: the match at the leftmost position that has one.\<close>
fun re_search :: "item list \<Rightarrow> string \<Rightarrow> string list option" where
  "re_search pat [] = rmatch pat []"
| "re_search pat (x # xs) =
     (case rmatch pat (x # xs) of Some ps \<Rightarrow> Some ps | None \<Rightarrow> re_search pat xs)"

text \<open>
  \<open>[$\<pounds>\<euro>]?\s*(\d+\.?\d*)\s*[mM](?:illion)?\<close>. Of the three currency signs the dollar and the
  pound (code point 163) are characters of the model; the euro (U+20AC) is not.
\<close>
definition price_pattern :: "item list" where
  "price_pattern =
     [Cls (\<lambda>c. c = CHR ''$'' \<or> c = CHR 0xA3) Opt, Cls is_space Star,
      Cls is_digit Plus, Cls (\<lambda>c. c = CHR ''.'') Opt, Cls is_digit Star,
      Cls is_space Star, Cls (\<lambda>c. c = CHR ''m'' \<or> c = CHR ''M'') One, OptLit ''illion'']"

text \<open>\<open>match.group(1)\<close>: the text of the third to fifth item.\<close>
definition group1 :: "string list \<Rightarrow> string" where
  "group1 ps = concat (take 3 (drop 2 ps))"

definition digit_or_dot :: "char \<Rightarrow> bool" where
  "digit_or_dot c = (is_digit c \<or> c = CHR ''.'')"

text \<open>
  A text of digits and points that \<open>float\<close> accepts: at least one digit and at most one
  point.
\<close>
definition plain_decimal :: "string \<Rightarrow> bool" where
  "plain_decimal t =
     (filter is_digit t \<noteq> [] \<and> length (filter (\<lambda>c. c = CHR ''.'') t) \<le> 1)"

section \<open>Price normalisation\<close>

text \<open>
  \<open>convert_price_to_number\<close>. The result is \<open>Inl ValueError\<close> where \<open>float\<close> raises. In the
  product the integer 1000000 is converted to the float of the same value; the last
  branch returns the integer 0, which is the float 0 here.
\<close>
definition convert_price_to_number :: "string \<Rightarrow> py_error + pyfloat" where
  "convert_price_to_number price_text0 =
     (let price_text = replace_char CHR '','' [] (strip price_text0);
          m = (if contains ''million'' (lower price_text) \<or> contains ''m'' (lower price_text)
               then re_search price_pattern price_text else None)
      in case m of
           Some ps \<Rightarrow>
             (case py_float (group1 ps) of
                Inl e \<Rightarrow> Inl e
              | Inr x \<Rightarrow> Inr (float_mul x (Finite 1000000)))
         | None \<Rightarrow>
             (let numbers = runs digit_or_dot [] price_text
              in if numbers \<noteq> [] then py_float (concat numbers) else Inr (Finite 0)))"

section \<open>The parsed page\<close>

text \<open>
  A page after \<open>BeautifulSoup(html, 'html.parser')\<close>: text nodes, and elements with a tag
  name, attributes and children. The markup parser itself is not modelled, nor are
  comments and the other special strings that \<open>get_text\<close> skips.
\<close>

datatype node = Text string | Elem string "(string \<times> string) list" "node list"

text \<open>All text strings below a node, in document order.\<close>
fun strings :: "node \<Rightarrow> string list" where
  "strings (Text s) = [s]"
| "strings (Elem n a cs) = concat (map strings cs)"

text \<open>All nodes below a node, in document order (the node itself excluded).\<close>
fun descendants :: "node \<Rightarrow> node list" where
  "descendants (Text s) = []"
| "descendants (Elem n a cs) = concat (map (\<lambda>c. c # descendants c) cs)"

text \<open>\<open>tag.text\<close>\<close>
definition get_text :: "node \<Rightarrow> string" where
  "get_text n = concat (strings n)"

text \<open>
  \<open>tag.get_text(strip=True)\<close>: every string is stripped, the empty ones are dropped and
  the rest is joined with no separator.
\<close>
definition get_text_strip :: "node \<Rightarrow> string" where
  "get_text_strip n = concat (filter (\<lambda>s. s \<noteq> []) (map strip (strings n)))"

text \<open>The values of the \<open>class\<close> attribute, which the parser splits at whitespace.\<close>
fun classes :: "node \<Rightarrow> string list" where
  "classes (Text s) = []"
| "classes (Elem n a cs) = (case map_of a ''class'' of None \<Rightarrow> [] | Some v \<Rightarrow> split_ws v)"

fun is_tag :: "string \<Rightarrow> node \<Rightarrow> bool" where
  "is_tag name (Text s) = False"
| "is_tag name (Elem n a cs) = (n = name)"

fun has_attr :: "string \<Rightarrow> node \<Rightarrow> bool" where
  "has_attr k (Text s) = False"
| "has_attr k (Elem n a cs) = (map_of a k \<noteq> None)"

text \<open>\<open>tag.find_all(name, class_=cls)\<close>\<close>
definition find_all_class :: "string \<Rightarrow> string \<Rightarrow> node \<Rightarrow> node list" where
  "find_all_class name cls n =
     filter (\<lambda>d. is_tag name d \<and> cls \<in> set (classes d)) (descendants n)"

text \<open>\<open>tag.find_all(name)\<close>\<close>
definition find_all_tag :: "string \<Rightarrow> node \<Rightarrow> node list" where
  "find_all_tag name n = filter (is_tag name) (descendants n)"

text \<open>\<open>tag.find_all(name, attrs={k: True})\<close>: the elements that have the attribute.\<close>
definition find_all_attr :: "string \<Rightarrow> string \<Rightarrow> node \<Rightarrow> node list" where
  "find_all_attr name k n = filter (\<lambda>d. is_tag name d \<and> has_attr k d) (descendants n)"

text \<open>\<open>tag.find(name, class_=cls)\<close> and \<open>tag.find(name)\<close>: the first match, or None.\<close>
definition find_class :: "string \<Rightarrow> string \<Rightarrow> node \<Rightarrow> node option" where
  "find_class name cls n = (case find_all_class name cls n of [] \<Rightarrow> None | d # ds \<Rightarrow> Some d)"

definition find_tag :: "string \<Rightarrow> node \<Rightarrow> node option" where
  "find_tag name n = (case find_all_tag name n of [] \<Rightarrow> None | d # ds \<Rightarrow> Some d)"

section \<open>Python values and their text\<close>

text \<open>The values that the program stores and that the \<open>json\<close> module reads and writes.\<close>
datatype pyval =
    PNone
  | PBool bool
  | PInt int
  | PFloat pyfloat
  | PStr string
  | PList "pyval list"
  | PDict "(string \<times> pyval) list"

type_synonym pydict = "(string \<times> pyval) list"

definition digit_char :: "nat \<Rightarrow> char" where
  "digit_char d = ''0123456789'' ! d"

text \<open>\<open>str(n)\<close> for an integer.\<close>
function str_nat :: "nat \<Rightarrow> string" where
  "str_nat n = (if n < 10 then [digit_char n] else str_nat (n div 10) @ [digit_char (n mod 10)])"
  by pat_completeness auto
termination
  by (relation "measure id") auto

declare str_nat.simps [simp del]

definition str_int :: "int \<Rightarrow> string" where
  "str_int i = (if i < 0 then CHR ''-'' # str_nat (nat (- i)) else str_nat (nat i))"

text \<open>
  \<open>str(x)\<close> for a float. The text of a finite float is the shortest decimal that reads
  back as the same double; it belongs to the interpreter and is the parameter \<open>frepr\<close>,
  applied to the value of the double.
\<close>
fun float_str :: "(rat \<Rightarrow> string) \<Rightarrow> pyfloat \<Rightarrow> string" where
  "float_str frepr (Finite q) = frepr q"
| "float_str frepr NegZero = ''-0.0''"
| "float_str frepr PosInf = ''inf''"
| "float_str frepr NegInf = ''-inf''"
| "float_str frepr NaN = ''nan''"

text \<open>The text of \<open>{x}\<close> in an f-string for an optional integer and an optional float.\<close>
fun fmt_opt_int :: "int option \<Rightarrow> string" where
  "fmt_opt_int None = ''None''"
| "fmt_opt_int (Some i) = str_int i"

fun fmt_opt_float :: "(rat \<Rightarrow> string) \<Rightarrow> pyfloat option \<Rightarrow> string" where
  "fmt_opt_float frepr None = ''None''"
| "fmt_opt_float frepr (Some x) = float_str frepr x"

text \<open>
  The check mark U+2713 of the first field. It is not a character of the model and is
  written as the three bytes of its UTF-8 encoding.
\<close>
definition check_mark :: string where
  "check_mark = [CHR 0xE2, CHR 0x9C, CHR 0x93]"

section \<open>Listing extraction\<close>

text \<open>
  \<open>process_listing\<close>, block by block. The parameters \<open>session\<close> and \<open>location\<close> are not
  used by the body; logging is left out.
\<close>

text \<open>\<open>listing.find('p', class_='price-container') or listing.find('p', class_='price')\<close>\<close>
definition price_container :: "node \<Rightarrow> node option" where
  "price_container listing =
     (case find_class ''p'' ''price-container'' listing of
        Some p \<Rightarrow> Some p
      | None \<Rightarrow> find_class ''p'' ''price'' listing)"

text \<open>The pair \<open>(price_text, status)\<close> after lines 51 to 75.\<close>
definition price_and_status :: "node \<Rightarrow> string \<times> string" where
  "price_and_status listing =
     (case price_container listing of
        None \<Rightarrow> ([], [])
      | Some pc \<Rightarrow>
          (let all_text = get_text_strip pc;
               price_parts = split_ws all_text;
               parsed =
                 (if price_parts \<noteq> [] then
                    (if price_parts ! 0 = ''Est'' \<and> 1 < length price_parts
                     then (price_parts ! 1, ''Estimated Price'')
                     else (price_parts ! 0,
                           if 1 < length price_parts then join '' '' (tl price_parts) else []))
                  else ([], []))
           in case find_class ''span'' ''status-pill'' pc of
                None \<Rightarrow> parsed
              | Some status_tag \<Rightarrow> (fst parsed, get_text_strip status_tag)))"

text \<open>\<open>text.split()[0]\<close>\<close>
definition first_token :: "string \<Rightarrow> py_error + string" where
  "first_token text = (case split_ws text of [] \<Rightarrow> Inl IndexError | t # ts \<Rightarrow> Inr t)"

text \<open>
  One pass of the loop over the \<open>li\<close> items: \<open>(beds, baths, sqft)\<close> before and after.
  A ValueError or IndexError leaves the field as it was.
\<close>
fun detail_step ::
  "int option \<times> pyfloat option \<times> int option \<Rightarrow> node \<Rightarrow> int option \<times> pyfloat option \<times> int option"
where
  "detail_step (beds, baths, sqft) li =
     (let text = strip (get_text li) in
      if contains ''Beds'' text then
        (case first_token text of
           Inl e \<Rightarrow> (beds, baths, sqft)
         | Inr t \<Rightarrow>
             (case py_int t of
                Inl e \<Rightarrow> (beds, baths, sqft)
              | Inr v \<Rightarrow> (Some v, baths, sqft)))
      else if contains ''Baths'' text then
        (case first_token text of
           Inl e \<Rightarrow> (beds, baths, sqft)
         | Inr t \<Rightarrow>
             (case py_float t of
                Inl e \<Rightarrow> (beds, baths, sqft)
              | Inr v \<Rightarrow> (beds, Some v, sqft)))
      else if contains ''Sq Ft'' text then
        (case first_token text of
           Inl e \<Rightarrow> (beds, baths, sqft)
         | Inr t \<Rightarrow>
             (case py_int (replace_char CHR '','' [] t) of
                Inl e \<Rightarrow> (beds, baths, sqft)
              | Inr v \<Rightarrow> (beds, baths, Some v)))
      else (beds, baths, sqft))"

definition details :: "node \<Rightarrow> int option \<times> pyfloat option \<times> int option" where
  "details listing =
     (case find_class ''ul'' ''detailed-info-container'' listing of
        None \<Rightarrow> (None, None, None)
      | Some details_container \<Rightarrow>
          foldl detail_step (None, None, None) (find_all_tag ''li'' details_container))"

definition address_text :: "node \<Rightarrow> string" where
  "address_text listing =
     (case find_class ''p'' ''property-name'' listing of
        None \<Rightarrow> []
      | Some address \<Rightarrow> strip (get_text address))"

text \<open>
  The pair \<open>(agent, agency)\<close>. (The description text, read beside them, is not used
  afterwards.)
\<close>
definition agent_and_agency :: "node \<Rightarrow> string \<times> string" where
  "agent_and_agency listing =
     (let agent_detail =
            (case find_class ''div'' ''description-container'' listing of
               Some description_container \<Rightarrow> find_class ''p'' ''agent-detail'' description_container
             | None \<Rightarrow> find_class ''p'' ''agent-detail'' listing)
      in case agent_detail of
           None \<Rightarrow> ([], [])
         | Some ad \<Rightarrow>
             ((case find_class ''span'' ''agent-name'' ad of
                 None \<Rightarrow> [] | Some agent_name \<Rightarrow> strip (get_text agent_name)),
              (case find_class ''span'' ''agency-name'' ad of
                 None \<Rightarrow> [] | Some agency_name \<Rightarrow> strip (get_text agency_name))))"

text \<open>The text \<open>f"{beds}, Baths: {baths}, Sq Ft: {sqft}"\<close>\<close>
definition beds_line ::
  "(rat \<Rightarrow> string) \<Rightarrow> int option \<times> pyfloat option \<times> int option \<Rightarrow> string" where
  "beds_line frepr d =
     (case d of (beds, baths, sqft) \<Rightarrow>
        fmt_opt_int beds @ '', Baths: '' @ fmt_opt_float frepr baths @ '', Sq Ft: '' @
        fmt_opt_int sqft)"

text \<open>
  \<open>process_listing\<close>: the dictionary it returns, or None. The only exception that the
  body can raise here is the ValueError of \<open>convert_price_to_number\<close>; the handler of
  \<open>Exception\<close> logs it and the function returns None.
\<close>
definition process_listing :: "(rat \<Rightarrow> string) \<Rightarrow> node \<Rightarrow> pydict option" where
  "process_listing frepr listing =
     (let (price_text, status) = price_and_status listing;
          d = details listing;
          address = address_text listing;
          (agent, agency) = agent_and_agency listing
      in case convert_price_to_number price_text of
           Inl e \<Rightarrow> None
         | Inr price_value \<Rightarrow>
             if float_lt_int price_value 1500000 then None
             else Some
               [(''Found high-value property:'', PStr check_mark),
                (''Address:'', PStr address),
                (''Price:'', PStr price_text),
                (''Price Value'', PFloat price_value),
                (''Status:'', PStr (if status \<noteq> [] then status else ''Not Listed For Sale'')),
                (''Beds:'', PStr (beds_line frepr d)),
                (''Agent:'', PStr agent),
                (''Agency:'', PStr agency)])"

subsection \<open>Example listings\<close>

text \<open>A listing priced \<open>Est $3.2M\<close>, one with all fields at \<open>$2,500,000\<close>, one at \<open>$1.2M\<close>.\<close>
definition listing_est :: node where
  "listing_est =
     Elem ''div'' [(''class'', ''for-sale-content-container'')]
       [Elem ''p'' [(''class'', ''price-container'')] [Text ''Est $3.2M'']]"

definition listing_full :: node where
  "listing_full =
     Elem ''div'' [(''class'', ''for-sale-content-container'')]
       [Elem ''p'' [(''class'', ''property-name'')] [Text '' 12 Elm St ''],
        Elem ''p'' [(''class'', ''price-container'')] [Text ''$2,500,000 for sale''],
        Elem ''ul'' [(''class'', ''detailed-info-container'')]
          [Elem ''li'' [] [Text ''3 Beds''], Elem ''li'' [] [Text ''2.5 Baths''],
           Elem ''li'' [] [Text ''1,800 Sq Ft'']],
        Elem ''p'' [(''class'', ''agent-detail'')]
          [Elem ''span'' [(''class'', ''agent-name'')] [Text ''Ann Lee''],
           Elem ''span'' [(''class'', ''agency-name'')] [Text ''Lee Homes'']]]"

definition listing_low :: node where
  "listing_low =
     Elem ''div'' [(''class'', ''off-market-content-container'')]
       [Elem ''p'' [(''class'', ''price'')] [Text ''$1.2M'']]"

subsection \<open>The record layout of the specification\<close>

fun is_str :: "pyval \<Rightarrow> bool" where
  "is_str (PStr s) = True"
| "is_str v = False"

fun is_number :: "pyval \<Rightarrow> bool" where
  "is_number (PFloat x) = True"
| "is_number (PInt i) = True"
| "is_number v = False"

fun is_int_or_null :: "pyval \<Rightarrow> bool" where
  "is_int_or_null (PInt i) = True"
| "is_int_or_null PNone = True"
| "is_int_or_null v = False"

fun is_number_or_null :: "pyval \<Rightarrow> bool" where
  "is_number_or_null PNone = True"
| "is_number_or_null v = is_number v"

text \<open>
  The output record as the specification words it: an object with exactly the fields
  address, price text, normalized price (number), status, beds (integer or null), baths
  (decimal or null), square footage (integer or null), agent and agency.
\<close>
fun spec_record_shape :: "pyval \<Rightarrow> bool" where
  "spec_record_shape (PDict kvs) =
     list_all2 (\<lambda>ty v. ty v)
       [is_str, is_str, is_number, is_str, is_int_or_null, is_number_or_null, is_int_or_null,
        is_str, is_str]
       (map snd kvs)"
| "spec_record_shape v = False"

section \<open>The json module: writing and reading text\<close>

text \<open>
  \<open>json.dump(obj, f, ensure_ascii=False, indent=4)\<close> and \<open>json.load(f)\<close>, on the text of
  the file. Characters are written as they are, apart from the escapes below; an escape
  \<open>\uXXXX\<close> for a code point above 255 is outside the model.
\<close>

subsection \<open>Writing\<close>

definition hex_digit :: "nat \<Rightarrow> char" where
  "hex_digit d = ''0123456789abcdef'' ! d"

definition escape_char :: "char \<Rightarrow> string" where
  "escape_char c =
     (if c = CHR 0x22 then [CHR 0x5C, CHR 0x22]
      else if c = CHR 0x5C then [CHR 0x5C, CHR 0x5C]
      else if c = CHR 0x0A then [CHR 0x5C, CHR ''n'']
      else if c = CHR 0x0D then [CHR 0x5C, CHR ''r'']
      else if c = CHR 0x09 then [CHR 0x5C, CHR ''t'']
      else if c = CHR 0x08 then [CHR 0x5C, CHR ''b'']
      else if c = CHR 0x0C then [CHR 0x5C, CHR ''f'']
      else if (of_char c :: nat) < 32 then
        [CHR 0x5C, CHR ''u'', CHR ''0'', CHR ''0'',
         hex_digit ((of_char c :: nat) div 16), hex_digit ((of_char c :: nat) mod 16)]
      else [c])"

definition encode_str :: "string \<Rightarrow> string" where
  "encode_str s = CHR 0x22 # concat (map escape_char s) @ [CHR 0x22]"

text \<open>A float as the encoder writes it: \<open>float.__repr__\<close>, or one of three words.\<close>
fun json_float :: "(rat \<Rightarrow> string) \<Rightarrow> pyfloat \<Rightarrow> string" where
  "json_float frepr (Finite q) = frepr q"
| "json_float frepr NegZero = ''-0.0''"
| "json_float frepr PosInf = ''Infinity''"
| "json_float frepr NegInf = ''-Infinity''"
| "json_float frepr NaN = ''NaN''"

text \<open>A line break and the indentation of nesting level \<open>lv\<close>, four spaces each.\<close>
definition indent_nl :: "nat \<Rightarrow> string" where
  "indent_nl lv = CHR 0x0A # replicate (4 * lv) CHR '' ''"

fun dumps :: "(rat \<Rightarrow> string) \<Rightarrow> nat \<Rightarrow> pyval \<Rightarrow> string" where
  "dumps frepr lv PNone = ''null''"
| "dumps frepr lv (PBool b) = (if b then ''true'' else ''false'')"
| "dumps frepr lv (PInt i) = str_int i"
| "dumps frepr lv (PFloat x) = json_float frepr x"
| "dumps frepr lv (PStr s) = encode_str s"
| "dumps frepr lv (PList xs) =
     (if xs = [] then ''[]''
      else ''['' @ indent_nl (Suc lv) @
           join ('','' @ indent_nl (Suc lv)) (map (dumps frepr (Suc lv)) xs) @
           indent_nl lv @ '']'')"
| "dumps frepr lv (PDict kvs) =
     (if kvs = [] then ''{}''
      else ''{'' @ indent_nl (Suc lv) @
           join ('','' @ indent_nl (Suc lv))
             (map (\<lambda>kv. encode_str (fst kv) @ '': '' @ dumps frepr (Suc lv) (snd kv)) kvs) @
           indent_nl lv @ ''}'')"

definition json_dumps :: "(rat \<Rightarrow> string) \<Rightarrow> pyval \<Rightarrow> string" where
  "json_dumps frepr v = dumps frepr 0 v"

subsection \<open>Reading\<close>

definition json_ws :: "char \<Rightarrow> bool" where
  "json_ws c = (c = CHR '' '' \<or> c = CHR 0x09 \<or> c = CHR 0x0A \<or> c = CHR 0x0D)"

definition skip_ws :: "string \<Rightarrow> string" where
  "skip_ws s = dropWhile json_ws s"

definition hex_val :: "char \<Rightarrow> nat option" where
  "hex_val c =
     map_of (zip ''0123456789abcdefABCDEF''
                 [0, 1, 2, 3, 4, 5, 6, 7, 8, 9, 10, 11, 12, 13, 14, 15, 10, 11, 12, 13, 14, 15]) c"

fun hex4 :: "string \<Rightarrow> nat option" where
  "hex4 [a, b, c, d] =
     (case (hex_val a, hex_val b, hex_val c, hex_val d) of
        (Some x, Some y, Some z, Some u) \<Rightarrow> Some (((x * 16 + y) * 16 + z) * 16 + u)
      | _ \<Rightarrow> None)"
| "hex4 s = None"

definition unescape :: "char \<Rightarrow> char option" where
  "unescape e =
     map_of [(CHR 0x22, CHR 0x22), (CHR 0x5C, CHR 0x5C), (CHR ''/'', CHR ''/''),
             (CHR ''b'', CHR 0x08), (CHR ''f'', CHR 0x0C), (CHR ''n'', CHR 0x0A),
             (CHR ''r'', CHR 0x0D), (CHR ''t'', CHR 0x09)] e"

text \<open>
  The text of a string after its opening quote: the decoded characters (\<open>acc\<close>, reversed)
  and what follows the closing quote. A raw control character is an error.
\<close>
fun scan_string :: "string \<Rightarrow> string \<Rightarrow> (string \<times> string) option" where
  "scan_string acc [] = None"
| "scan_string acc (c # cs) =
     (if c = CHR 0x22 then Some (rev acc, cs)
      else if c = CHR 0x5C then
        (case cs of
           [] \<Rightarrow> None
         | e # r \<Rightarrow>
             if e = CHR ''u'' then
               (case hex4 (take 4 r) of
                  None \<Rightarrow> None
                | Some n \<Rightarrow>
                    if n < 256 then scan_string (char_of n # acc) (drop 4 r) else None)
             else (case unescape e of
                     None \<Rightarrow> None
                   | Some ch \<Rightarrow> scan_string (ch # acc) r))
      else if (of_char c :: nat) < 32 then None
      else scan_string (c # acc) cs)"

text \<open>
  A number at the start of the text, by the pattern
  \<open>(-?(?:0|[1-9]\d*))(\.\d+)?([eE][-+]?\d+)?\<close>: with a fraction or an exponent it is read
  by \<open>float\<close>, otherwise by \<open>int\<close>.
\<close>
definition scan_number :: "string \<Rightarrow> (pyval \<times> string) option" where
  "scan_number s =
     (let sign = (if s \<noteq> [] \<and> hd s = CHR ''-'' then ''-'' else []);
          s1 = drop (length sign) s
      in if s1 = [] \<or> \<not> is_digit (hd s1) then None
         else
           let ip = (if hd s1 = CHR ''0'' then ''0'' else takeWhile is_digit s1);
               s2 = drop (length ip) s1;
               frac = (if 1 < length s2 \<and> hd s2 = CHR ''.'' \<and> is_digit (s2 ! 1)
                       then CHR ''.'' # takeWhile is_digit (tl s2) else []);
               s3 = drop (length frac) s2;
               esign = (if 1 < length s3 \<and> (s3 ! 1 = CHR ''+'' \<or> s3 ! 1 = CHR ''-'')
                        then [s3 ! 1] else []);
               edigits = takeWhile is_digit (drop (1 + length esign) s3);
               ex = (if s3 \<noteq> [] \<and> is_e (hd s3) \<and> edigits \<noteq> []
                     then hd s3 # esign @ edigits else []);
               s4 = drop (length ex) s3
           in if frac = [] \<and> ex = [] then
                (case py_int (sign @ ip) of
                   Inl e \<Rightarrow> None
                 | Inr i \<Rightarrow> Some (PInt i, s4))
              else
                (case py_float (sign @ ip @ frac @ ex) of
                   Inl e \<Rightarrow> None
                 | Inr x \<Rightarrow> Some (PFloat x, s4)))"

text \<open>\<open>dict(pairs)\<close>: a later value for the same key replaces the earlier one in place.\<close>
fun dict_update :: "pydict \<Rightarrow> string \<Rightarrow> pyval \<Rightarrow> pydict" where
  "dict_update [] k v = [(k, v)]"
| "dict_update ((k', v') # d) k v =
     (if k' = k then (k, v) # d else (k', v') # dict_update d k v)"

definition dict_of_pairs :: "(string \<times> pyval) list \<Rightarrow> pydict" where
  "dict_of_pairs pairs = foldl (\<lambda>d kv. dict_update d (fst kv) (snd kv)) [] pairs"

text \<open>
  The scanner: a value at the start of the text, and the rest. \<open>parse_items\<close> reads the
  elements of an array after its first element's position, \<open>parse_members\<close> the members
  of an object from the quote of a key; both collect what they read in reverse. The tests
  on the length of the rest hold for every result (each value takes at least one
  character); they make the recursion well-founded.
\<close>
function parse_value :: "string \<Rightarrow> (pyval \<times> string) option"
  and parse_items :: "pyval list \<Rightarrow> string \<Rightarrow> (pyval list \<times> string) option"
  and parse_members ::
    "(string \<times> pyval) list \<Rightarrow> string \<Rightarrow> ((string \<times> pyval) list \<times> string) option"
where
  "parse_value s =
     (case s of
        [] \<Rightarrow> None
      | c # cs \<Rightarrow>
          if c = CHR 0x22 then
            (case scan_string [] cs of
               None \<Rightarrow> None
             | Some (t, r) \<Rightarrow> Some (PStr t, r))
          else if c = CHR ''{'' then
            (case skip_ws cs of
               [] \<Rightarrow> None
             | d # ds \<Rightarrow>
                 if d = CHR ''}'' then Some (PDict [], ds)
                 else (case parse_members [] (d # ds) of
                         None \<Rightarrow> None
                       | Some (kvs, r) \<Rightarrow> Some (PDict (dict_of_pairs kvs), r)))
          else if c = CHR ''['' then
            (case skip_ws cs of
               [] \<Rightarrow> None
             | d # ds \<Rightarrow>
                 if d = CHR '']'' then Some (PList [], ds)
                 else (case parse_items [] (d # ds) of
                         None \<Rightarrow> None
                       | Some (xs, r) \<Rightarrow> Some (PList xs, r)))
          else if starts_with ''null'' s then Some (PNone, drop 4 s)
          else if starts_with ''true'' s then Some (PBool True, drop 4 s)
          else if starts_with ''false'' s then Some (PBool False, drop 5 s)
          else (case scan_number s of
                  Some x \<Rightarrow> Some x
                | None \<Rightarrow>
                    if starts_with ''NaN'' s then Some (PFloat NaN, drop 3 s)
                    else if starts_with ''Infinity'' s then Some (PFloat PosInf, drop 8 s)
                    else if starts_with ''-Infinity'' s then Some (PFloat NegInf, drop 9 s)
                    else None))"
| "parse_items acc s =
     (case parse_value s of
        None \<Rightarrow> None
      | Some (v, r) \<Rightarrow>
          if length r < length s then
            (case skip_ws r of
               [] \<Rightarrow> None
             | d # ds \<Rightarrow>
                 if d = CHR '']'' then Some (rev (v # acc), ds)
                 else if d = CHR '','' then parse_items (v # acc) (skip_ws ds)
                 else None)
          else None)"
| "parse_members acc s =
     (case s of
        [] \<Rightarrow> None
      | q # cs \<Rightarrow>
          if q = CHR 0x22 then
            (case scan_string [] cs of
               None \<Rightarrow> None
             | Some (k, r1) \<Rightarrow>
                 (case skip_ws r1 of
                    [] \<Rightarrow> None
                  | colon # r2 \<Rightarrow>
                      if colon = CHR '':'' \<and> length r2 < length s then
                        (case parse_value (skip_ws r2) of
                           None \<Rightarrow> None
                         | Some (v, r3) \<Rightarrow>
                             if length r3 < length s then
                               (case skip_ws r3 of
                                  [] \<Rightarrow> None
                                | d # ds \<Rightarrow>
                                    if d = CHR ''}'' then Some (rev ((k, v) # acc), ds)
                                    else if d = CHR '','' then
                                      parse_members ((k, v) # acc) (skip_ws ds)
                                    else None)
                             else None)
                      else None))
          else None)"
  by pat_completeness auto
termination
proof (relation
    "measures [\<lambda>x. case x of Inl s \<Rightarrow> length s | Inr (Inl (acc, s)) \<Rightarrow> length s
                            | Inr (Inr (acc, s)) \<Rightarrow> length s,
               \<lambda>x. case x of Inl s \<Rightarrow> 0 | Inr y \<Rightarrow> 1]", goal_cases)
  case 1
  show ?case by simp
next
  case (2 s c cs d ds)
  then show ?case using length_dropWhile_le [of json_ws cs] by (simp add: skip_ws_def)
next
  case (3 s c cs d ds)
  then show ?case using length_dropWhile_le [of json_ws cs] by (simp add: skip_ws_def)
next
  case (4 acc s)
  show ?case by simp
next
  case (5 acc s x v r d ds)
  then show ?case using length_dropWhile_le [of json_ws r] length_dropWhile_le [of json_ws ds]
    by (simp add: skip_ws_def)
next
  case (6 acc s q cs x k r1 colon r2)
  then show ?case using length_dropWhile_le [of json_ws r2] by (simp add: skip_ws_def)
next
  case (7 acc s q cs x k r1 colon r2 y v r3 d ds)
  then show ?case using length_dropWhile_le [of json_ws r3] length_dropWhile_le [of json_ws ds]
    by (simp add: skip_ws_def)
qed

text \<open>
  \<open>json.load\<close>: leading whitespace, one value, trailing whitespace and the end of the text.
  \<open>None\<close> stands for JSONDecodeError.
\<close>
definition json_loads :: "string \<Rightarrow> pyval option" where
  "json_loads s =
     (case parse_value (skip_ws s) of
        None \<Rightarrow> None
      | Some (v, r) \<Rightarrow> if skip_ws r = [] then Some v else None)"

section \<open>The environment: network, disk and clock\<close>

text \<open>
  What a GET returns: \<open>Failed\<close> when \<open>session.get\<close> raises, else the status and the parsed
  body, which is \<open>None\<close> when reading the body raises.
\<close>
datatype reply = Failed | Reply nat "node option"

text \<open>
  What an attempt to write a file does: it succeeds, or \<open>open\<close> fails and the file is
  untouched, or the dump fails after \<open>k\<close> characters of the emptied file.
\<close>
datatype write_result = Written | OpenError | DumpError nat

text \<open>
  The environment of a run. \<open>net e url n\<close> is the reply to a GET of \<open>url\<close> issued as request
  number \<open>n\<close> of the run, \<open>disk e n\<close> the fate of write attempt number \<open>n\<close>, \<open>clock e n\<close> the
  value of \<open>int(time.time())\<close> after \<open>n\<close> effects.
\<close>
record env =
  net :: "string \<Rightarrow> nat \<Rightarrow> reply"
  disk :: "nat \<Rightarrow> write_result"
  clock :: "nat \<Rightarrow> nat"

datatype event =
    Get string
  | Sleep nat
  | Jitter
  | WriteFile string string write_result

text \<open>The state a run threads through: counters, the files, and the effects so far.\<close>
record world =
  requests :: nat
  writes :: nat
  files :: "string \<Rightarrow> string option"
  trace :: "event list"

definition http_get :: "env \<Rightarrow> string \<Rightarrow> world \<Rightarrow> reply \<times> world" where
  "http_get e url w =
     (net e url (requests w),
      w\<lparr>requests := Suc (requests w), trace := trace w @ [Get url]\<rparr>)"

text \<open>\<open>asyncio.sleep(d)\<close>, and the sleep of \<open>random.uniform(0.5, 1.5)\<close> seconds.\<close>
definition sleep :: "nat \<Rightarrow> world \<Rightarrow> world" where
  "sleep d w = w\<lparr>trace := trace w @ [Sleep d]\<rparr>"

definition jitter :: "world \<Rightarrow> world" where
  "jitter w = w\<lparr>trace := trace w @ [Jitter]\<rparr>"

text \<open>\<open>with open(path, 'w') as f: json.dump(..., f)\<close>, writing \<open>text\<close>.\<close>
definition write_file :: "env \<Rightarrow> string \<Rightarrow> string \<Rightarrow> world \<Rightarrow> write_result \<times> world" where
  "write_file e path text w =
     (let r = disk e (writes w)
      in (r,
          w\<lparr>writes := Suc (writes w),
            files := (case r of
                        Written \<Rightarrow> (files w)(path \<mapsto> text)
                      | OpenError \<Rightarrow> files w
                      | DumpError k \<Rightarrow> (files w)(path \<mapsto> take k text)),
            trace := trace w @ [WriteFile path text r]\<rparr>))"

section \<open>\<open>scrape_page\<close>\<close>

definition max_retries :: nat where
  "max_retries = 1"

definition retry_delay :: nat where
  "retry_delay = 2"

text \<open>Lines 172 to 193: the listing elements of a page and the records made from them.\<close>
definition listing_elements :: "node \<Rightarrow> node list" where
  "listing_elements soup =
     find_all_class ''div'' ''for-sale-content-container'' soup @
     find_all_class ''div'' ''off-market-content-container'' soup"

definition page_records :: "(rat \<Rightarrow> string) \<Rightarrow> node \<Rightarrow> pydict list" where
  "page_records frepr soup =
     (let found = listing_elements soup;
          elements =
            (if found = [] then find_all_attr ''div'' ''data-nosnippet'' soup else found)
      in if elements = [] then []
         else map the (filter (\<lambda>r. r \<noteq> None) (map (process_listing frepr) elements)))"

text \<open>
  The loop \<open>for attempt in range(max_retries)\<close> over the attempts that remain; the last
  equation is the \<open>return []\<close> after the loop. An exception inside the \<open>try\<close> (the GET or
  the reading of the body) takes the \<open>except\<close> branch.
\<close>
fun scrape_attempts ::
  "(rat \<Rightarrow> string) \<Rightarrow> env \<Rightarrow> string \<Rightarrow> nat \<Rightarrow> nat \<Rightarrow> nat list \<Rightarrow> world \<Rightarrow> pydict list \<times> world"
where
  "scrape_attempts frepr e url retries delay [] w = ([], w)"
| "scrape_attempts frepr e url retries delay (attempt # rest) w =
     (case http_get e url w of (r, w1) \<Rightarrow>
        (case r of
           Failed \<Rightarrow>
             if int attempt < int retries - 1
             then scrape_attempts frepr e url retries delay rest (sleep delay w1)
             else ([], w1)
         | Reply status body \<Rightarrow>
             if status = 403 then
               (if int attempt < int retries - 1
                then scrape_attempts frepr e url retries delay rest (sleep delay w1)
                else ([], w1))
             else if status \<noteq> 200 then ([], w1)
             else (case body of
                     None \<Rightarrow>
                       if int attempt < int retries - 1
                       then scrape_attempts frepr e url retries delay rest (sleep delay w1)
                       else ([], w1)
                   | Some soup \<Rightarrow> (page_records frepr soup, w1))))"

definition scrape_page ::
  "(rat \<Rightarrow> string) \<Rightarrow> env \<Rightarrow> string \<Rightarrow> world \<Rightarrow> pydict list \<times> world" where
  "scrape_page frepr e url w =
     scrape_attempts frepr e url max_retries retry_delay [0..<max_retries] w"

section \<open>\<open>scrape_real_estate_listings\<close>\<close>

text \<open>Lines 208 to 219.\<close>
definition base_url_of :: "string \<Rightarrow> string" where
  "base_url_of location =
     (let location_parts = split_loop ''/'' [] (lower (strip location))
      in if 1 < length location_parts then
           ''https://www.homes.com/'' @ location_parts ! 0 @ ''/'' @ location_parts ! 1 @
           ''-neighborhood/all-inventory''
         else
           ''https://www.homes.com/'' @
           replace_char CHR '' '' ''-'' (lower (strip location)) @ ''/all-inventory'')"

text \<open>Lines 222 to 233: the records of an existing output file, or the empty list.\<close>
definition load_existing :: "string \<Rightarrow> world \<Rightarrow> pyval list" where
  "load_existing output_file w =
     (case files w output_file of
        None \<Rightarrow> []
      | Some text \<Rightarrow>
          (case json_loads text of
             None \<Rightarrow> []
           | Some existing_data \<Rightarrow>
               (case existing_data of PList xs \<Rightarrow> xs | _ \<Rightarrow> [])))"

text \<open>\<open>int(page_info.text.split('of')[1].strip())\<close>\<close>
definition total_pages_of_text :: "string \<Rightarrow> py_error + int" where
  "total_pages_of_text t =
     (case split_sep ''of'' t of
        Inl e \<Rightarrow> Inl e
      | Inr parts \<Rightarrow> if 1 < length parts then py_int (strip (parts ! 1)) else Inl IndexError)"

text \<open>Lines 238 to 260: the total page count from the reply to the first GET.\<close>
definition total_pages_of :: "reply \<Rightarrow> int" where
  "total_pages_of r =
     (case r of
        Failed \<Rightarrow> 1
      | Reply status body \<Rightarrow>
          if status = 200 then
            (case body of
               None \<Rightarrow> 1
             | Some soup \<Rightarrow>
                 (case find_class ''p'' ''search-results'' soup of
                    None \<Rightarrow> 1
                  | Some search_results \<Rightarrow>
                      (case find_tag ''span'' search_results of
                         None \<Rightarrow> 1
                       | Some page_info \<Rightarrow>
                           (case total_pages_of_text (get_text page_info) of
                              Inl e \<Rightarrow> 1
                            | Inr n \<Rightarrow> n))))
          else 1)"

text \<open>Lines 267 to 277.\<close>
definition page_url :: "string \<Rightarrow> int \<Rightarrow> string" where
  "page_url base_url page =
     (if 1 < page then
        (if contains ''neighborhood'' base_url
         then rstrip_char CHR ''/'' base_url @ ''/p'' @ str_int page @ ''/''
         else base_url @ ''/p'' @ str_int page @ ''/'')
      else base_url @ ''/'')"

text \<open>
  Lines 327 to 340: the whole collection is written to the output file; if that fails, to
  a backup file named after the time; a failure of that too is only logged.
\<close>
definition save_page ::
  "(rat \<Rightarrow> string) \<Rightarrow> env \<Rightarrow> string \<Rightarrow> pyval list \<Rightarrow> world \<Rightarrow> world" where
  "save_page frepr e output_file properties w =
     (case write_file e output_file (json_dumps frepr (PList properties)) w of (r, w1) \<Rightarrow>
        if r = Written then w1
        else
          (let backup_file =
                 output_file @ ''_backup_'' @ str_int (int (clock e (length (trace w1)))) @
                 ''.json''
           in snd (write_file e backup_file (json_dumps frepr (PList properties)) w1)))"

text \<open>How a pass of the page loop ends: it goes on, or it leaves at one of the breaks.\<close>
datatype decision =
    Continue
  | StopNotFound
  | StopHttpError
  | StopException
  | StopErrorMarker
  | StopNoListings
  | StopNoNextPage
  | StopNoPagination

text \<open>Lines 346 to 360.\<close>
definition next_page_decision :: "node \<Rightarrow> int \<Rightarrow> int \<Rightarrow> decision" where
  "next_page_decision soup page total_pages =
     (case find_class ''div'' ''pagination'' soup of
        Some pagination \<Rightarrow>
          (case find_class ''a'' ''next-page'' pagination of
             None \<Rightarrow> StopNoNextPage
           | Some next_button \<Rightarrow> Continue)
      | None \<Rightarrow>
          (case find_class ''p'' ''search-results'' soup of
             None \<Rightarrow> StopNoPagination
           | Some search_results \<Rightarrow>
               if page < total_pages then Continue else StopNoPagination))"

text \<open>
  One pass of the loop \<open>while page <= total_pages\<close> (lines 266 to 371): the decision, the
  collection and the world after it.
\<close>
definition page_iteration ::
  "(rat \<Rightarrow> string) \<Rightarrow> env \<Rightarrow> string \<Rightarrow> string \<Rightarrow> int \<Rightarrow> int \<Rightarrow> pyval list \<Rightarrow> world \<Rightarrow>
   decision \<times> pyval list \<times> world" where
  "page_iteration frepr e base_url output_file total_pages page properties w =
     (let current_url = page_url base_url page
      in case http_get e current_url (jitter w) of (r, w2) \<Rightarrow>
           (case r of
              Failed \<Rightarrow> (StopException, properties, w2)
            | Reply status body \<Rightarrow>
                if status = 404 then (StopNotFound, properties, w2)
                else if status \<noteq> 200 then (StopHttpError, properties, w2)
                else
                  (case body of
                     None \<Rightarrow> (StopException, properties, w2)
                   | Some soup \<Rightarrow>
                       (case find_class ''div'' ''error-container'' soup of
                          Some error_container \<Rightarrow> (StopErrorMarker, properties, w2)
                        | None \<Rightarrow>
                            (case scrape_page frepr e current_url w2 of (page_listings, w3) \<Rightarrow>
                               if page_listings \<noteq> [] then
                                 (next_page_decision soup page total_pages,
                                  properties @ map PDict page_listings,
                                  save_page frepr e output_file
                                    (properties @ map PDict page_listings) w3)
                               else (StopNoListings, properties, w3))))))"

function scrape_loop ::
  "(rat \<Rightarrow> string) \<Rightarrow> env \<Rightarrow> string \<Rightarrow> string \<Rightarrow> int \<Rightarrow> int \<Rightarrow> pyval list \<Rightarrow> world \<Rightarrow>
   int \<times> pyval list \<times> world" where
  "scrape_loop frepr e base_url output_file total_pages page properties w =
     (if page \<le> total_pages then
        (case page_iteration frepr e base_url output_file total_pages page properties w of
           (d, properties', w') \<Rightarrow>
             if d = Continue
             then scrape_loop frepr e base_url output_file total_pages (page + 1) properties' w'
             else (page, properties', w'))
      else (page, properties, w))"
  by pat_completeness auto
termination
  by (relation "measure (\<lambda>(frepr, e, base_url, output_file, total_pages, page, properties, w).
                  nat (total_pages + 1 - page))") auto

text \<open>
  \<open>scrape_real_estate_listings\<close>: the collection it returns and the world after it. The
  closing log line divides by \<open>total_pages\<close>, which raises when the page count read from
  the site is 0.
\<close>
definition scrape_real_estate_listings ::
  "(rat \<Rightarrow> string) \<Rightarrow> env \<Rightarrow> string \<Rightarrow> string \<Rightarrow> world \<Rightarrow> (py_error + pyval list) \<times> world" where
  "scrape_real_estate_listings frepr e location output_file w =
     (let base_url = base_url_of location;
          properties = load_existing output_file w
      in case http_get e base_url w of (r0, w1) \<Rightarrow>
           (case scrape_loop frepr e base_url output_file (total_pages_of r0) 1 properties w1 of
              (page, properties', w2) \<Rightarrow>
                if total_pages_of r0 = 0 then (Inl ZeroDivisionError, w2)
                else (Inr properties', w2)))"

section \<open>Notions used in the statements\<close>

text \<open>The effects between two worlds of a run.\<close>
definition new_events :: "world \<Rightarrow> world \<Rightarrow> event list" where
  "new_events w w' = drop (length (trace w)) (trace w')"

fun is_get :: "event \<Rightarrow> bool" where
  "is_get (Get url) = True"
| "is_get ev = False"

fun is_write :: "event \<Rightarrow> bool" where
  "is_write (WriteFile path text r) = True"
| "is_write ev = False"

text \<open>Every GET but one at the very start comes directly after a sleep of \<open>d\<close> seconds.\<close>
fun retries_wait :: "nat \<Rightarrow> event list \<Rightarrow> bool" where
  "retries_wait d (x # y # evs) = ((is_get y \<longrightarrow> x = Sleep d) \<and> retries_wait d (y # evs))"
| "retries_wait d evs = True"

text \<open>A reply with status 200 whose body can be read.\<close>
fun is_ok :: "reply \<Rightarrow> bool" where
  "is_ok (Reply status (Some soup)) = (status = 200)"
| "is_ok r = False"

text \<open>The records that \<open>scrape_page\<close> makes of a reply.\<close>
definition records_of_reply :: "(rat \<Rightarrow> string) \<Rightarrow> reply \<Rightarrow> pydict list" where
  "records_of_reply frepr r =
     (case r of
        Reply status (Some soup) \<Rightarrow> if status = 200 then page_records frepr soup else []
      | _ \<Rightarrow> [])"

text \<open>
  The page on which a pass of the page loop goes on to \<open>scrape_page\<close>: the body of a
  readable reply of status 200 that has no error marker.
\<close>
definition valid_page :: "reply \<Rightarrow> node option" where
  "valid_page r =
     (case r of
        Reply status (Some soup) \<Rightarrow>
          if status = 200 \<and> find_class ''div'' ''error-container'' soup = None then Some soup
          else None
      | _ \<Rightarrow> None)"

text \<open>
  The check for a next page as the specification words it: with a pagination block,
  continue only if it holds a next-page element; with none, continue whenever the page
  index is below the total page count.
\<close>
definition spec_next_page_decision :: "node \<Rightarrow> int \<Rightarrow> int \<Rightarrow> decision" where
  "spec_next_page_decision soup page total_pages =
     (case find_class ''div'' ''pagination'' soup of
        Some pagination \<Rightarrow>
          (case find_class ''a'' ''next-page'' pagination of
             None \<Rightarrow> StopNoNextPage
           | Some next_button \<Rightarrow> Continue)
      | None \<Rightarrow> if page < total_pages then Continue else StopNoPagination)"

text \<open>The world at the start of a run with no files.\<close>
definition world0 :: world where
  "world0 = \<lparr>requests = 0, writes = 0, files = Map.empty, trace = []\<rparr>"

text \<open>A page with one listing (\<open>listing_est\<close>) and nothing else.\<close>
definition page_one_listing :: node where
  "page_one_listing = Elem ''[document]'' [] [listing_est]"

text \<open>A page with one listing and a pagination block with a next-page link.\<close>
definition page_listing_next :: node where
  "page_listing_next =
     Elem ''[document]'' []
       [listing_est,
        Elem ''div'' [(''class'', ''pagination'')]
          [Elem ''a'' [(''class'', ''next-page'')] [Text ''Next'']]]"


text \<open>A page whose marker does not end in a number, and a page with no marker.\<close>
definition page_1_of_many :: node where
  "page_1_of_many =
     Elem ''[document]'' []
       [Elem ''p'' [(''class'', ''search-results'')] [Elem ''span'' [] [Text ''Page 1 of many'']]]"


text \<open>Environments: every GET is answered 403; every GET is answered 404; every GET
  returns \<open>page_one_listing\<close>; and the first GET is answered 403, the later ones 200.\<close>
definition env_403 :: env where
  "env_403 = \<lparr>net = (\<lambda>url n. Reply 403 None), disk = (\<lambda>n. Written), clock = (\<lambda>n. 1700000000)\<rparr>"

definition env_404 :: env where
  "env_404 = \<lparr>net = (\<lambda>url n. Reply 404 None), disk = (\<lambda>n. Written), clock = (\<lambda>n. 1700000000)\<rparr>"

definition env_one_listing :: env where
  "env_one_listing =
     \<lparr>net = (\<lambda>url n. Reply 200 (Some page_one_listing)), disk = (\<lambda>n. Written),
      clock = (\<lambda>n. 1700000000)\<rparr>"

definition env_403_then_ok :: env where
  "env_403_then_ok =
     \<lparr>net = (\<lambda>url n. if n = 0 then Reply 403 None else Reply 200 (Some page_one_listing)),
      disk = (\<lambda>n. Written), clock = (\<lambda>n. 1700000000)\<rparr>"

text \<open>
  Every GET returns \<open>page_listing_next\<close>; on the second disk every write fails at \<open>open\<close>.
\<close>
definition env_listing_next :: env where
  "env_listing_next =
     \<lparr>net = (\<lambda>url n. Reply 200 (Some page_listing_next)), disk = (\<lambda>n. Written),
      clock = (\<lambda>n. 1700000000)\<rparr>"

definition env_disk_full :: env where
  "env_disk_full =
     \<lparr>net = (\<lambda>url n. Reply 200 (Some page_listing_next)), disk = (\<lambda>n. OpenError),
      clock = (\<lambda>n. 1700000000)\<rparr>"

section \<open>Properties of the text primitives\<close>

lemmas text_defs = is_space_def is_digit_def digit_val_def lower_char_def lower_def strip_def
  rstrip_char_def replace_char_def split_ws_def split_sep_def valid_digitpart_def
  digits_value_def digitpart_def py_int_def pow10_def mantissa_def exponent_def is_e_def
  float_number_def py_float_def price_pattern_def group1_def digit_or_dot_def
  convert_price_to_number_def Let_def

lemmas float_defs = pow2_def floor_log2_def round_half_even_def round_pos_def with_sign_def
  round_double_def float_mul_def Let_def

lemma floor_rat_numeral [simp]:
  "\<lfloor>numeral a / numeral b :: rat\<rfloor> = numeral a div numeral b"
  using floor_divide_of_int_eq [of "numeral a" "numeral b", where ?'a = rat] by simp

lemma ceiling_rat_numeral [simp]:
  "\<lceil>numeral a / numeral b :: rat\<rceil> = - (- numeral a div numeral b)"
  using floor_divide_of_int_eq [of "- numeral a" "numeral b", where ?'a = rat]
  by (simp add: ceiling_def)

lemma bit_length_numeral [simp]:
  "bit_length (numeral k) =
     (if (numeral k :: nat) = 0 then 0 else Suc (bit_length (numeral k div 2)))"
  by (rule bit_length.simps)

lemma bit_length_0 [simp]: "bit_length 0 = 0"
  by (simp add: bit_length.simps [of 0])

lemma bit_length_1 [simp]: "bit_length 1 = 1" "bit_length (Suc 0) = 1"
  by (simp_all add: bit_length.simps [of 1] bit_length.simps [of "Suc 0"])

text \<open>Some values and products, rounded.\<close>
lemma round_double_examples:
  "round_double (5 / 2) = Finite (5 / 2)"
  "round_double 1750000 = Finite 1750000"
  "round_double 2500000 = Finite 2500000"
  "round_double (6 / 5) = Finite (5404319552844595 / 4503599627370496)"
  "round_double (16 / 5) = Finite (3602879701896397 / 1125899906842624)"
  "round_double (201 / 100) = Finite (1131529406376837 / 562949953421312)"
  "round_double (149999999999999999 / 100000000000) = Finite 1500000"
  by (simp_all add: float_defs)

lemma float_mul_examples:
  "float_mul (Finite (5 / 2)) (Finite 1000000) = Finite 2500000"
  "float_mul (Finite (5404319552844595 / 4503599627370496)) (Finite 1000000) = Finite 1200000"
  "float_mul (Finite (3602879701896397 / 1125899906842624)) (Finite 1000000) = Finite 3200000"
  "float_mul (Finite (1131529406376837 / 562949953421312)) (Finite 1000000) =
     Finite (8632884264959999 / 4294967296)"
  by (simp_all add: float_defs)

lemmas float_evals = round_double_examples float_mul_examples with_sign_def

text \<open>Rounding keeps the sign: a value that is not negative rounds to such a double.\<close>
lemma pow2_pos: "0 < pow2 e"
  by (simp add: pow2_def)

lemma round_half_even_nonneg: "0 \<le> q \<Longrightarrow> 0 \<le> round_half_even q"
proof -
  assume "0 \<le> q"
  then have "0 \<le> \<lfloor>q\<rfloor>" by simp
  then show ?thesis by (simp add: round_half_even_def Let_def)
qed

lemma round_pos_nonneg:
  assumes "0 < q"
  shows "round_pos q = PosInf \<or> (\<exists>v. round_pos q = Finite v \<and> 0 \<le> v)"
proof -
  define e where "e = max (floor_log2 q - 52) (- 1074)"
  define m where "m = round_half_even (q / pow2 e)"
  have r: "round_pos q =
      (if 2 ^ 1024 \<le> of_int m * pow2 e then PosInf else Finite (of_int m * pow2 e))"
    by (simp only: round_pos_def e_def m_def Let_def)
  have "0 \<le> q / pow2 e" using assms pow2_pos [of e] by simp
  then have "0 \<le> m" unfolding m_def by (rule round_half_even_nonneg)
  then have "(0 :: rat) \<le> of_int m * pow2 e" using pow2_pos [of e] by simp
  then show ?thesis unfolding r by simp
qed

lemma round_double_nonneg:
  assumes "0 \<le> q"
  shows "round_double q = PosInf \<or> (\<exists>v. round_double q = Finite v \<and> 0 \<le> v)"
proof (cases "q = 0")
  case True
  then show ?thesis by (simp add: round_double_def)
next
  case False
  with assms have "0 < q" by simp
  then show ?thesis using round_pos_nonneg [of q] by (simp add: round_double_def)
qed

lemma float_mul_nonneg:
  assumes "x = PosInf \<or> (\<exists>q. x = Finite q \<and> 0 \<le> q)"
  shows "float_mul x (Finite 1000000) = PosInf \<or>
         (\<exists>v. float_mul x (Finite 1000000) = Finite v \<and> 0 \<le> v)"
proof (cases "x = PosInf")
  case True
  then show ?thesis by (simp add: float_mul_def with_sign_def)
next
  case False
  with assms obtain q where q: "x = Finite q" "0 \<le> q" by blast
  then have "float_mul x (Finite 1000000) = round_double (q * 1000000)"
    by (simp add: float_mul_def with_sign_def)
  moreover have "0 \<le> q * 1000000" using q(2) by simp
  ultimately show ?thesis using round_double_nonneg [of "q * 1000000"] by simp
qed

text \<open>The no-break space separates words as a space does.\<close>
lemma split_ws_no_break_space:
  "split_ws (''Est'' @ [CHR 0xA0] @ ''$3.2M'') = [''Est'', ''$3.2M'']"
  by (simp add: split_ws_def is_space_def)

lemma runs_concat: "concat (runs p acc s) = rev acc @ filter p s"
  by (induction s arbitrary: acc) auto

lemma runs_empty_iff: "runs p acc s = [] \<longleftrightarrow> acc = [] \<and> filter p s = []"
  by (induction s arbitrary: acc) auto

lemma rmatch_conforms: "rmatch pat s = Some ps \<Longrightarrow> list_all2 conforms pat ps"
  by (induction pat s arbitrary: ps rule: rmatch.induct)
     (auto split: if_splits option.splits list.splits)

lemma re_search_conforms: "re_search pat s = Some ps \<Longrightarrow> list_all2 conforms pat ps"
  by (induction s) (auto split: option.splits dest: rmatch_conforms)

lemma upper_codes: "\<forall>x \<in> set ''ABCDEFGHIJKLMNOPQRSTUVWXYZ''. 65 \<le> (of_char x :: nat)"
  by simp
lemma lower_char_id: "(of_char c :: nat) < 65 \<Longrightarrow> lower_char c = c"
proof -
  assume a: "(of_char c :: nat) < 65"
  have "c \<notin> set ''ABCDEFGHIJKLMNOPQRSTUVWXYZ''"
    using a upper_codes by (metis not_le)
  then have "map_of (zip ''ABCDEFGHIJKLMNOPQRSTUVWXYZ'' ''abcdefghijklmnopqrstuvwxyz'') c = None"
    by (simp only: map_of_eq_None_iff map_fst_zip length_Cons list.size) simp
  moreover have "\<not> (192 \<le> (of_char c :: nat) \<and> (of_char c :: nat) \<le> 222 \<and>
      (of_char c :: nat) \<noteq> 215)"
    using a by simp
  ultimately show ?thesis by (simp only: lower_char_def option.case Let_def if_False)
qed
lemma digit_or_dot_facts:
  "digit_or_dot c \<Longrightarrow> \<not> is_space c \<and> c \<noteq> CHR ''-'' \<and> c \<noteq> CHR ''+'' \<and> \<not> is_e c \<and>
     lower_char c = c \<and> c \<noteq> CHR ''_'' \<and> c \<noteq> CHR '',''"
  by (auto simp: digit_or_dot_def is_digit_def is_space_def is_e_def Let_def intro: lower_char_id)

lemma is_digit_not_dot: "is_digit c \<Longrightarrow> c \<noteq> CHR ''.''"
  by (auto simp: is_digit_def)

lemma strip_no_space: "list_all (\<lambda>c. \<not> is_space c) t \<Longrightarrow> strip t = t"
proof (cases "t = []")
  case True
  then show ?thesis by (simp add: strip_def)
next
  case False
  assume h: "list_all (\<lambda>c. \<not> is_space c) t"
  from h False have "\<not> is_space (hd t)" "\<not> is_space (last t)"
    by (auto simp: list_all_iff)
  then have "dropWhile is_space t = t" "dropWhile is_space (rev t) = rev t"
    using False by (simp_all add: dropWhile_eq_self_iff hd_rev)
  then show ?thesis by (simp add: strip_def)
qed

lemma lower_digit_dot: "list_all digit_or_dot t \<Longrightarrow> lower t = t"
  by (induction t) (auto simp: lower_def digit_or_dot_facts)

lemma contains_hd_mem: "contains (a # as) x \<Longrightarrow> a \<in> set x"
  by (induction x) (auto)

lemma valid_digitpart_digits:
  "list_all digit_or_dot x \<Longrightarrow> valid_digitpart x \<longleftrightarrow> x \<noteq> [] \<and> list_all is_digit x"
proof
  assume a: "list_all digit_or_dot x" and v: "valid_digitpart x"
  from v have "x \<noteq> []" and "list_all (\<lambda>c. is_digit c \<or> c = CHR ''_'') x"
    by (simp_all add: valid_digitpart_def)
  with a show "x \<noteq> [] \<and> list_all is_digit x"
    by (auto simp: list_all_iff dest: digit_or_dot_facts)
next
  assume a: "list_all digit_or_dot x" and d: "x \<noteq> [] \<and> list_all is_digit x"
  then have "is_digit (hd x)" "is_digit (last x)"
    by (auto simp: list_all_iff)
  moreover have "\<not> contains ''__'' x"
    using a by (auto simp: list_all_iff dest!: contains_hd_mem digit_or_dot_facts)
  ultimately show "valid_digitpart x"
    using d by (auto simp: valid_digitpart_def list_all_iff)
qed

lemma mantissa_digit_dot:
  assumes "list_all digit_or_dot t"
  shows "(plain_decimal t \<longrightarrow> (\<exists>q. mantissa t = Some q \<and> 0 \<le> q)) \<and>
         (\<not> plain_decimal t \<longrightarrow> mantissa t = None)"
proof -
  define ip where "ip = takeWhile (\<lambda>c. c \<noteq> CHR ''.'') t"
  define r where "r = dropWhile (\<lambda>c. c \<noteq> CHR ''.'') t"
  have t: "t = ip @ r" by (simp add: ip_def r_def)
  have ipd: "list_all is_digit ip"
    using assms unfolding ip_def list_all_iff
    by (auto simp: digit_or_dot_def dest!: set_takeWhileD)
  have ipdd: "list_all digit_or_dot ip"
    using ipd by (auto simp: list_all_iff digit_or_dot_def)
  have ipv: "valid_digitpart ip \<longleftrightarrow> ip \<noteq> []"
    using valid_digitpart_digits[OF ipdd] ipd by simp
  have ipnodot: "filter (\<lambda>c. c = CHR ''.'') ip = []"
    using ipd by (auto simp: filter_empty_conv list_all_iff dest: is_digit_not_dot)
  have ipfd: "filter is_digit ip = ip"
    using ipd by (simp add: list_all_iff)
  have m: "mantissa t =
      (if r = [] then map_option of_nat (digitpart ip)
       else if (ip = [] \<or> valid_digitpart ip) \<and> (tl r = [] \<or> valid_digitpart (tl r)) \<and>
               \<not> (ip = [] \<and> tl r = [])
            then Some (of_nat (digits_value ip) +
                       of_nat (digits_value (tl r)) / 10 ^ length (filter is_digit (tl r)))
            else None)"
    by (simp only: mantissa_def ip_def r_def Let_def)
  show ?thesis
  proof (cases r)
    case Nil
    then have ti: "t = ip" using t by simp
    have "plain_decimal t \<longleftrightarrow> ip \<noteq> []"
      unfolding ti plain_decimal_def using ipnodot ipfd by simp
    then show ?thesis
      using Nil ipv by (auto simp: m digitpart_def valid_digitpart_def)
  next
    case (Cons d fp)
    have d: "d = CHR ''.''"
      using Cons hd_dropWhile[of "\<lambda>c. c \<noteq> CHR ''.''" t] by (simp add: r_def)
    have fpdd: "list_all digit_or_dot fp"
      using assms t Cons by simp
    have fpv: "valid_digitpart fp \<longleftrightarrow> fp \<noteq> [] \<and> list_all is_digit fp"
      by (rule valid_digitpart_digits[OF fpdd])
    have fpdots: "list_all is_digit fp \<longleftrightarrow> filter (\<lambda>c. c = CHR ''.'') fp = []"
      using fpdd by (auto simp: list_all_iff filter_empty_conv digit_or_dot_def dest: is_digit_not_dot)
    have pd: "plain_decimal t \<longleftrightarrow> list_all is_digit fp \<and> \<not> (ip = [] \<and> fp = [])"
    proof -
      have f1: "filter is_digit t = ip @ filter is_digit fp"
        using t Cons d ipfd by (auto simp: is_digit_def)
      have f2: "length (filter (\<lambda>c. c = CHR ''.'') t) = Suc (length (filter (\<lambda>c. c = CHR ''.'') fp))"
        using t Cons d ipnodot by simp
      have a: "plain_decimal t \<longleftrightarrow>
                 (ip \<noteq> [] \<or> filter is_digit fp \<noteq> []) \<and> filter (\<lambda>c. c = CHR ''.'') fp = []"
        unfolding plain_decimal_def f1 f2 by simp
      show ?thesis
      proof (cases "list_all is_digit fp")
        case True
        then have "filter is_digit fp = fp" by (simp add: list_all_iff)
        with True a fpdots show ?thesis by simp
      next
        case False
        with a fpdots show ?thesis by simp
      qed
    qed
    have mc: "mantissa t =
      (if list_all is_digit fp \<and> \<not> (ip = [] \<and> fp = [])
       then Some (of_nat (digits_value ip) +
                       of_nat (digits_value fp) / 10 ^ length (filter is_digit fp))
       else None)"
      unfolding m using Cons ipv fpv by auto
    show ?thesis
      unfolding pd mc by simp
  qed
qed

lemma py_float_digit_dot:
  assumes "list_all digit_or_dot t"
  shows "(plain_decimal t \<longrightarrow>
            py_float t = Inr PosInf \<or> (\<exists>q. py_float t = Inr (Finite q) \<and> 0 \<le> q)) \<and>
         (\<not> plain_decimal t \<longrightarrow> py_float t = Inl ValueError)"
proof -
  have ns: "list_all (\<lambda>c. \<not> is_space c) t"
    using assms by (auto simp: list_all_iff dest: digit_or_dot_facts)
  have s: "strip t = t" by (rule strip_no_space[OF ns])
  have sign: "\<not> (t \<noteq> [] \<and> (hd t = CHR ''-'' \<or> hd t = CHR ''+''))"
    using assms by (cases t) (auto dest: digit_or_dot_facts)
  have sign2: "\<not> (t \<noteq> [] \<and> hd t = CHR ''-'')"
    using sign by blast
  have l: "lower t = t" by (rule lower_digit_dot[OF assms])
  have w: "t \<noteq> ''inf''" "t \<noteq> ''infinity''" "t \<noteq> ''nan''"
    using assms by (auto simp: digit_or_dot_def is_digit_def)
  have e: "takeWhile (\<lambda>c. \<not> is_e c) t = t" "dropWhile (\<lambda>c. \<not> is_e c) t = []"
    using assms by (auto simp: takeWhile_eq_all_conv dropWhile_eq_Nil_conv list_all_iff dest: digit_or_dot_facts)
  have fn: "float_number t = mantissa t"
    by (simp add: float_number_def e Let_def split: option.splits)
  have body: "(if t \<noteq> [] \<and> (hd t = CHR ''-'' \<or> hd t = CHR ''+'') then tl t else t) = t"
    using sign by auto
  have pf: "py_float t =
      (case mantissa t of None \<Rightarrow> Inl ValueError | Some q \<Rightarrow> Inr (round_double q))"
    unfolding py_float_def Let_def s body l fn
    using sign2 w by (auto simp: with_sign_def split: option.splits)
  show ?thesis
  proof (cases "plain_decimal t")
    case True
    with mantissa_digit_dot[OF assms] obtain q where q: "mantissa t = Some q" "0 \<le> q"
      by blast
    from round_double_nonneg [OF q(2)] True show ?thesis
      by (auto simp: pf q(1))
  next
    case False
    with mantissa_digit_dot[OF assms] show ?thesis by (simp add: pf)
  qed
qed

lemma filter_dropWhile_disj: "(\<And>x. p x \<Longrightarrow> \<not> q x) \<Longrightarrow> filter p (dropWhile q xs) = filter p xs"
  by (induction xs) auto

lemma filter_strip: "(\<And>x. p x \<Longrightarrow> \<not> is_space x) \<Longrightarrow> filter p (strip s) = filter p s"
  by (simp add: strip_def filter_dropWhile_disj flip: rev_filter)

lemma filter_replace_char_del: "\<not> p c \<Longrightarrow> filter p (replace_char c [] s) = filter p s"
  by (induction s) (auto simp: replace_char_def)

lemma filter_digit_or_dot_clean:
  "filter digit_or_dot (replace_char CHR '','' [] (strip s)) = filter digit_or_dot s"
proof -
  have "\<not> digit_or_dot CHR '',''" by (simp add: digit_or_dot_def is_digit_def)
  then show ?thesis
    by (simp add: filter_replace_char_del filter_strip digit_or_dot_facts)
qed

lemma starts_with_take: "starts_with l s \<Longrightarrow> l @ drop (length l) s = s"
  by (induction l s rule: starts_with.induct) auto

lemma rmatch_prefix: "rmatch pat s = Some ps \<Longrightarrow> \<exists>rest. s = concat ps @ rest"
  by (induction pat s arbitrary: ps rule: rmatch.induct)
     (auto split: if_splits option.splits list.splits, metis starts_with_take)

lemma re_search_set: "re_search pat s = Some ps \<Longrightarrow> set (concat ps) \<subseteq> set s"
proof (induction s)
  case Nil
  then show ?case by (auto dest: rmatch_prefix)
next
  case (Cons x xs)
  show ?case
  proof (cases "rmatch pat (x # xs)")
    case None
    with Cons show ?thesis by auto
  next
    case (Some a)
    with Cons.prems have "rmatch pat (x # xs) = Some ps" by simp
    from rmatch_prefix[OF this] obtain rest where "x # xs = concat ps @ rest" by blast
    then have "set (x # xs) = set (concat ps) \<union> set rest" by (metis set_append)
    then show ?thesis by blast
  qed
qed

lemma price_pattern_group1:
  assumes "re_search price_pattern s = Some ps"
  shows "py_float (group1 ps) = Inr PosInf \<or>
         (\<exists>q. py_float (group1 ps) = Inr (Finite q) \<and> 0 \<le> q)"
proof -
  from re_search_conforms[OF assms]
  obtain p0 p1 p2 p3 p4 p5 p6 p7 where
    ps: "ps = [p0, p1, p2, p3, p4, p5, p6, p7]" and
    c2: "p2 \<noteq> []" "list_all is_digit p2" and
    c3: "length p3 \<le> 1" "list_all (\<lambda>c. c = CHR ''.'') p3" and
    c4: "list_all is_digit p4"
    by (auto simp: price_pattern_def list_all2_Cons1)
  have g: "group1 ps = p2 @ p3 @ p4" by (simp add: ps group1_def)
  have dd: "list_all digit_or_dot (p2 @ p3 @ p4)"
    using c2 c3 c4 by (auto simp: list_all_iff digit_or_dot_def)
  have nd2: "filter (\<lambda>c. c = CHR ''.'') p2 = []" and nd4: "filter (\<lambda>c. c = CHR ''.'') p4 = []"
    using c2 c4 by (auto simp: filter_empty_conv list_all_iff dest: is_digit_not_dot)
  have f2: "filter is_digit p2 = p2" using c2 by (simp add: list_all_iff)
  have "length (filter (\<lambda>c. c = CHR ''.'') p3) \<le> 1"
    using c3(1) by (meson le_trans length_filter_le)
  then have "plain_decimal (p2 @ p3 @ p4)"
    using c2(1) by (simp add: plain_decimal_def nd2 nd4 f2)
  with py_float_digit_dot[OF dd] show ?thesis by (simp add: g)
qed


section \<open>Price normalisation: results\<close>

text \<open>The possible results of the normalisation, for any text.\<close>
lemma convert_price_to_number_cases:
  "(case convert_price_to_number s of
      Inr x \<Rightarrow> x = PosInf \<or> (\<exists>q. x = Finite q \<and> 0 \<le> q)
    | Inl e \<Rightarrow> e = ValueError \<and> \<not> plain_decimal (filter digit_or_dot s)) \<and>
   (filter digit_or_dot s = [] \<longrightarrow> convert_price_to_number s = Inr (Finite 0))"
proof -
  define pt where "pt = replace_char CHR '','' [] (strip s)"
  define m where "m = (if contains ''million'' (lower pt) \<or> contains ''m'' (lower pt)
               then re_search price_pattern pt else None)"
  have c: "convert_price_to_number s =
     (case m of
           Some ps \<Rightarrow>
             (case py_float (group1 ps) of
                Inl e \<Rightarrow> Inl e
              | Inr x \<Rightarrow> Inr (float_mul x (Finite 1000000)))
         | None \<Rightarrow>
             (if runs digit_or_dot [] pt \<noteq> [] then py_float (concat (runs digit_or_dot [] pt))
              else Inr (Finite 0)))"
    by (simp only: convert_price_to_number_def pt_def m_def Let_def)
  have f: "filter digit_or_dot pt = filter digit_or_dot s"
    unfolding pt_def by (rule filter_digit_or_dot_clean)
  show ?thesis
  proof (cases m)
    case (Some ps)
    then have rs: "re_search price_pattern pt = Some ps"
      by (simp add: m_def split: if_splits)
    from price_pattern_group1[OF rs] obtain x where
      x: "py_float (group1 ps) = Inr x" "x = PosInf \<or> (\<exists>q. x = Finite q \<and> 0 \<le> q)"
      by blast
    have r: "convert_price_to_number s = Inr (float_mul x (Finite 1000000))"
      by (simp add: c Some x(1))
    have ne: "filter digit_or_dot s \<noteq> []"
    proof -
      from re_search_conforms[OF rs] obtain p0 p1 p2 rest where
        "ps = p0 # p1 # p2 # rest" "p2 \<noteq> []" "list_all is_digit p2"
        by (auto simp: price_pattern_def list_all2_Cons1)
      then obtain c where "c \<in> set (concat ps)" "is_digit c"
        by (cases p2) auto
      with re_search_set[OF rs] have "c \<in> set pt" "digit_or_dot c"
        by (auto simp: digit_or_dot_def)
      then have "filter digit_or_dot pt \<noteq> []"
        by (auto simp: filter_empty_conv)
      with f show ?thesis by simp
    qed
    show ?thesis using r float_mul_nonneg [OF x(2)] ne by auto
  next
    case None
    let ?t = "filter digit_or_dot pt"
    have dd: "list_all digit_or_dot ?t" by (simp add: list_all_iff)
    show ?thesis
    proof (cases "?t = []")
      case True
      then show ?thesis
        using None f by (simp add: c runs_empty_iff)
    next
      case False
      then have r: "convert_price_to_number s = py_float ?t"
        using None by (simp add: c runs_empty_iff runs_concat)
      show ?thesis
        using py_float_digit_dot[OF dd] False f
        by (cases "plain_decimal ?t") (auto simp: r)
    qed
  qed
qed

text \<open>
  Rounding at work: a price text just below the threshold reads as 1500000, the product
  for \<open>2.01M\<close> is the double below 2010000, and a price of 310 digits is infinity.
\<close>
lemma convert_price_to_number_rounds:
  "convert_price_to_number ''1499999.99999999999'' = Inr (Finite 1500000)"
  "convert_price_to_number ''2.01M'' = Inr (Finite (8632884264959999 / 4294967296))"
  by (simp_all add: text_defs float_evals)

text \<open>
  C2. The price normalisation maps \<open>"$2.5M"\<close> to 2,500,000, \<open>"1,750,000"\<close> to
  1,750,000 and \<open>"Contact Agent"\<close> to 0.
\<close>
theorem convert_price_to_number_examples:
  "convert_price_to_number ''$2.5M'' = Inr (Finite 2500000) \<and>
   convert_price_to_number ''1,750,000'' = Inr (Finite 1750000) \<and>
   convert_price_to_number ''Contact Agent'' = Inr (Finite 0)"
  by (simp add: text_defs float_evals)

text \<open>
  C7, as stated (the normalisation returns a non-negative number for every text, also when
  the runs of digits and points concatenate to a text with several points), fails:
  on \<open>"1.2.3"\<close> the call of \<open>float\<close> raises ValueError.
\<close>
theorem convert_price_to_number_raises:
  "convert_price_to_number ''1.2.3'' = Inl ValueError"
  by (simp add: text_defs float_evals)

text \<open>
  C7, amended. For every text the normalisation terminates and either returns a
  non-negative number (a float from 0 on, which is infinity when the price is too large
  for a double; never a NaN) or raises ValueError; it raises only when the digits and
  points of the text, concatenated, are not a decimal literal (no digit, or more than one
  point); and it returns 0 when the text has neither a digit nor a point.
\<close>
theorem convert_price_to_number_outcome:
  "(case convert_price_to_number s of
      Inr x \<Rightarrow> x = PosInf \<or> (\<exists>q. x = Finite q \<and> 0 \<le> q)
    | Inl e \<Rightarrow> e = ValueError \<and> \<not> plain_decimal (filter digit_or_dot s)) \<and>
   (filter digit_or_dot s = [] \<longrightarrow> convert_price_to_number s = Inr (Finite 0))"
  by (rule convert_price_to_number_cases)

theorem convert_price_to_number_outcome_witness:
  "filter digit_or_dot ''Contact Agent'' = [] \<and>
   convert_price_to_number ''Contact Agent'' = Inr (Finite 0) \<and>
   \<not> plain_decimal (filter digit_or_dot ''Est.'')"
proof -
  have e: "filter digit_or_dot ''Contact Agent'' = []"
    by (simp add: digit_or_dot_def is_digit_def)
  have r: "convert_price_to_number ''Est.'' = Inl ValueError"
    by (simp add: text_defs float_evals)
  show ?thesis
    using convert_price_to_number_outcome [of "''Contact Agent''"]
      convert_price_to_number_outcome [of "''Est.''"] e r
    by simp
qed

section \<open>Listing extraction: results\<close>

lemmas dom_defs = get_text_def get_text_strip_def find_all_class_def find_all_tag_def
  find_all_attr_def find_class_def find_tag_def

lemmas listing_defs = price_container_def price_and_status_def first_token_def details_def
  address_text_def agent_and_agency_def beds_line_def process_listing_def check_mark_def

lemma str_nat_numeral [simp]:
  "str_nat (numeral k) =
     (if (numeral k :: nat) < 10 then [digit_char (numeral k)]
      else str_nat (numeral k div 10) @ [digit_char (numeral k mod 10)])"
  by (rule str_nat.simps)

lemma str_nat_0 [simp]: "str_nat 0 = ''0''"
  by (simp add: str_nat.simps [of 0] digit_char_def)

lemma str_nat_1 [simp]: "str_nat 1 = ''1''" "str_nat (Suc 0) = ''1''"
  by (simp_all add: str_nat.simps [of 1] str_nat.simps [of "Suc 0"] digit_char_def)

lemma process_listing_low: "process_listing frepr listing_low = None"
  by (simp add: listing_low_def listing_defs dom_defs text_defs float_evals)

lemma process_listing_est:
  "process_listing frepr listing_est = Some
     [(''Found high-value property:'', PStr check_mark),
      (''Address:'', PStr []),
      (''Price:'', PStr ''$3.2M''),
      (''Price Value'', PFloat (Finite 3200000)),
      (''Status:'', PStr ''Estimated Price''),
      (''Beds:'', PStr ''None, Baths: None, Sq Ft: None''),
      (''Agent:'', PStr []),
      (''Agency:'', PStr [])]"
  by (simp add: listing_est_def listing_defs dom_defs text_defs float_evals)

lemma process_listing_full:
  "process_listing frepr listing_full = Some
     [(''Found high-value property:'', PStr check_mark),
      (''Address:'', PStr ''12 Elm St''),
      (''Price:'', PStr ''$2,500,000''),
      (''Price Value'', PFloat (Finite 2500000)),
      (''Status:'', PStr ''for sale''),
      (''Beds:'', PStr (''3, Baths: '' @ frepr (5 / 2) @ '', Sq Ft: 1800'')),
      (''Agent:'', PStr ''Ann Lee''),
      (''Agency:'', PStr ''Lee Homes'')]"
  by (simp add: listing_full_def listing_defs dom_defs text_defs float_evals str_int_def digit_char_def)

lemma price_text_low: "fst (price_and_status listing_low) = ''$1.2M''"
  by (simp add: listing_low_def listing_defs dom_defs text_defs float_evals)

lemma convert_low: "convert_price_to_number ''$1.2M'' = Inr (Finite 1200000)"
  by (simp add: text_defs float_evals)

text \<open>The dictionary that \<open>process_listing\<close> builds, when it builds one.\<close>
lemma process_listing_Some:
  assumes "process_listing frepr listing = Some r"
  shows "\<exists>x. convert_price_to_number (fst (price_and_status listing)) = Inr x \<and>
             float_ge_int x 1500000 \<and>
             r = [(''Found high-value property:'', PStr check_mark),
                  (''Address:'', PStr (address_text listing)),
                  (''Price:'', PStr (fst (price_and_status listing))),
                  (''Price Value'', PFloat x),
                  (''Status:'', PStr (if snd (price_and_status listing) \<noteq> []
                                     then snd (price_and_status listing)
                                     else ''Not Listed For Sale'')),
                  (''Beds:'', PStr (beds_line frepr (details listing))),
                  (''Agent:'', PStr (fst (agent_and_agency listing))),
                  (''Agency:'', PStr (snd (agent_and_agency listing)))]"
proof -
  obtain pt st where ps: "price_and_status listing = (pt, st)" by (cases "price_and_status listing")
  obtain ag agc where aa: "agent_and_agency listing = (ag, agc)"
    by (cases "agent_and_agency listing")
  from assms obtain x where x: "convert_price_to_number pt = Inr x"
    by (cases "convert_price_to_number pt") (simp_all add: process_listing_def ps aa)
  from convert_price_to_number_cases [of pt] x
  have nn: "x = PosInf \<or> (\<exists>q. x = Finite q \<and> 0 \<le> q)"
    by simp
  from assms have nlt: "\<not> float_lt_int x 1500000"
    by (simp add: process_listing_def ps aa x split: if_splits)
  have ge: "float_ge_int x 1500000"
    using nn nlt by auto
  from assms nlt have
    "r = [(''Found high-value property:'', PStr check_mark),
          (''Address:'', PStr (address_text listing)),
          (''Price:'', PStr pt),
          (''Price Value'', PFloat x),
          (''Status:'', PStr (if st \<noteq> [] then st else ''Not Listed For Sale'')),
          (''Beds:'', PStr (beds_line frepr (details listing))),
          (''Agent:'', PStr ag),
          (''Agency:'', PStr agc)]"
    by (simp add: process_listing_def ps aa x)
  with ge show ?thesis using x ps aa by simp
qed

lemma process_listing_below:
  assumes "convert_price_to_number (fst (price_and_status listing)) = Inr p"
    and "float_lt_int p 1500000"
  shows "process_listing frepr listing = None"
proof -
  obtain pt st where ps: "price_and_status listing = (pt, st)" by (cases "price_and_status listing")
  obtain ag agc where aa: "agent_and_agency listing = (ag, agc)"
    by (cases "agent_and_agency listing")
  show ?thesis using assms by (simp add: process_listing_def ps aa)
qed

text \<open>
  C1. For every listing node, if the normalized price of its price text (the value that
  \<open>convert_price_to_number\<close> returns for it) is below 1,500,000 then extraction returns
  none; hence every record that exists has a normalized price of at least 1,500,000, which
  is the value stored under \<open>Price Value\<close>.
\<close>
theorem process_listing_threshold:
  "(\<forall>p. convert_price_to_number (fst (price_and_status listing)) = Inr p \<and>
        float_lt_int p 1500000 \<longrightarrow> process_listing frepr listing = None) \<and>
   (\<forall>r. process_listing frepr listing = Some r \<longrightarrow>
        (\<exists>x. convert_price_to_number (fst (price_and_status listing)) = Inr x \<and>
             map_of r ''Price Value'' = Some (PFloat x) \<and> float_ge_int x 1500000))"
proof (intro conjI allI impI)
  fix p
  assume "convert_price_to_number (fst (price_and_status listing)) = Inr p \<and>
          float_lt_int p 1500000"
  then show "process_listing frepr listing = None"
    using process_listing_below by blast
next
  fix r
  assume "process_listing frepr listing = Some r"
  from process_listing_Some [OF this] show
    "\<exists>x. convert_price_to_number (fst (price_and_status listing)) = Inr x \<and>
         map_of r ''Price Value'' = Some (PFloat x) \<and> float_ge_int x 1500000"
    by auto
qed

theorem process_listing_threshold_witness:
  "convert_price_to_number (fst (price_and_status listing_low)) = Inr (Finite 1200000) \<and>
   float_lt_int (Finite 1200000) 1500000 \<and>
   process_listing (\<lambda>q. []) listing_low = None \<and>
   (\<exists>r x. process_listing (\<lambda>q. []) listing_est = Some r \<and>
          map_of r ''Price Value'' = Some (PFloat x) \<and> float_ge_int x 1500000)"
proof -
  have a: "convert_price_to_number (fst (price_and_status listing_low)) = Inr (Finite 1200000)"
    by (simp only: price_text_low convert_low)
  have b: "float_lt_int (Finite 1200000) 1500000" by simp
  from process_listing_threshold [of listing_low "\<lambda>q. []"] a b
  have c: "process_listing (\<lambda>q. []) listing_low = None" by blast
  from process_listing_threshold [of listing_est "\<lambda>q. []"] process_listing_est [of "\<lambda>q. []"]
  have d: "\<exists>r x. process_listing (\<lambda>q. []) listing_est = Some r \<and>
          map_of r ''Price Value'' = Some (PFloat x) \<and> float_ge_int x 1500000"
    by blast
  from a b c d show ?thesis by blast
qed

text \<open>
  C4, as stated (every record is an object with exactly the nine fields address, price
  text, normalized price, status, beds, baths, square footage, agent and agency, the three
  details being numbers or null), fails: the record of \<open>listing_full\<close> has eight fields, the
  first a constant marker, and beds, baths and square footage are one text under \<open>Beds:\<close>.
\<close>
theorem process_listing_record_not_spec_shape:
  "process_listing (\<lambda>q. ''2.5'') listing_full = Some
     [(''Found high-value property:'', PStr check_mark),
      (''Address:'', PStr ''12 Elm St''),
      (''Price:'', PStr ''$2,500,000''),
      (''Price Value'', PFloat (Finite 2500000)),
      (''Status:'', PStr ''for sale''),
      (''Beds:'', PStr ''3, Baths: 2.5, Sq Ft: 1800''),
      (''Agent:'', PStr ''Ann Lee''),
      (''Agency:'', PStr ''Lee Homes'')] \<and>
   \<not> spec_record_shape (PDict (the (process_listing (\<lambda>q. ''2.5'') listing_full)))"
  by (simp add: process_listing_full)

text \<open>
  C4, amended. Every record that \<open>process_listing\<close> returns is a dictionary with exactly
  these eight fields, in this order: \<open>Found high-value property:\<close> (the check mark),
  \<open>Address:\<close>, \<open>Price:\<close> (the price text), \<open>Price Value\<close> (the normalized price of the
  price text, a number), \<open>Status:\<close> (never empty), \<open>Beds:\<close> (one text holding beds, baths
  and square footage, each \<open>None\<close> when missing), \<open>Agent:\<close> and \<open>Agency:\<close>; all but the
  price value are texts.
\<close>
theorem process_listing_record_shape:
  "process_listing frepr listing = Some r \<Longrightarrow>
   map fst r = [''Found high-value property:'', ''Address:'', ''Price:'', ''Price Value'',
                ''Status:'', ''Beds:'', ''Agent:'', ''Agency:''] \<and>
   (\<exists>address price_text x status agent agency.
      map snd r = [PStr check_mark, PStr address, PStr price_text, PFloat x,
                   PStr status, PStr (beds_line frepr (details listing)), PStr agent,
                   PStr agency] \<and>
      status \<noteq> [] \<and>
      convert_price_to_number price_text = Inr x)"
proof -
  assume "process_listing frepr listing = Some r"
  from process_listing_Some [OF this] obtain x where
    x: "convert_price_to_number (fst (price_and_status listing)) = Inr x" and
    r: "r = [(''Found high-value property:'', PStr check_mark),
                  (''Address:'', PStr (address_text listing)),
                  (''Price:'', PStr (fst (price_and_status listing))),
                  (''Price Value'', PFloat x),
                  (''Status:'', PStr (if snd (price_and_status listing) \<noteq> []
                                     then snd (price_and_status listing)
                                     else ''Not Listed For Sale'')),
                  (''Beds:'', PStr (beds_line frepr (details listing))),
                  (''Agent:'', PStr (fst (agent_and_agency listing))),
                  (''Agency:'', PStr (snd (agent_and_agency listing)))]"
    by blast
  have k: "map fst r = [''Found high-value property:'', ''Address:'', ''Price:'',
      ''Price Value'', ''Status:'', ''Beds:'', ''Agent:'', ''Agency:'']"
    by (simp add: r)
  have s: "(if snd (price_and_status listing) \<noteq> [] then snd (price_and_status listing)
            else ''Not Listed For Sale'') \<noteq> []"
    by simp
  have v: "map snd r = [PStr check_mark, PStr (address_text listing),
      PStr (fst (price_and_status listing)), PFloat x,
      PStr (if snd (price_and_status listing) \<noteq> [] then snd (price_and_status listing)
            else ''Not Listed For Sale''),
      PStr (beds_line frepr (details listing)), PStr (fst (agent_and_agency listing)),
      PStr (snd (agent_and_agency listing))]"
    by (simp add: r)
  show ?thesis
  proof (intro conjI exI)
    show "map fst r = [''Found high-value property:'', ''Address:'', ''Price:'',
      ''Price Value'', ''Status:'', ''Beds:'', ''Agent:'', ''Agency:'']"
      by (rule k)
    show "map snd r = [PStr check_mark, PStr (address_text listing),
      PStr (fst (price_and_status listing)), PFloat x,
      PStr (if snd (price_and_status listing) \<noteq> [] then snd (price_and_status listing)
            else ''Not Listed For Sale''),
      PStr (beds_line frepr (details listing)), PStr (fst (agent_and_agency listing)),
      PStr (snd (agent_and_agency listing))]"
      by (rule v)
    show "(if snd (price_and_status listing) \<noteq> [] then snd (price_and_status listing)
            else ''Not Listed For Sale'') \<noteq> []"
      by (rule s)
    show "convert_price_to_number (fst (price_and_status listing)) = Inr x"
      by (rule x)
  qed
qed

theorem process_listing_record_shape_witness:
  "process_listing (\<lambda>q. ''2.5'') listing_full \<noteq> None \<and>
   map fst (the (process_listing (\<lambda>q. ''2.5'') listing_full)) =
     [''Found high-value property:'', ''Address:'', ''Price:'', ''Price Value'',
      ''Status:'', ''Beds:'', ''Agent:'', ''Agency:'']"
  using process_listing_record_shape [of "\<lambda>q. ''2.5''" listing_full]
    process_listing_full [of "\<lambda>q. ''2.5''"]
  by simp

section \<open>\<open>scrape_page\<close>: results\<close>

lemma new_events_append: "trace w' = trace w @ evs \<Longrightarrow> new_events w w' = evs"
  by (simp add: new_events_def)

lemma http_get_simps:
  "fst (http_get e url w) = net e url (requests w)"
  "trace (snd (http_get e url w)) = trace w @ [Get url]"
  "requests (snd (http_get e url w)) = Suc (requests w)"
  "writes (snd (http_get e url w)) = writes w"
  "files (snd (http_get e url w)) = files w"
  by (simp_all add: http_get_def)

lemma sleep_simps:
  "trace (sleep d w) = trace w @ [Sleep d]"
  "requests (sleep d w) = requests w"
  "writes (sleep d w) = writes w"
  "files (sleep d w) = files w"
  by (simp_all add: sleep_def)

text \<open>The effects of the attempt loop, for any number of attempts and any delay.\<close>
lemma scrape_attempts_events:
  "\<exists>evs. trace (snd (scrape_attempts frepr e url retries delay as w)) = trace w @ evs \<and>
         retries_wait delay evs \<and> (evs = [] \<or> hd evs = Get url) \<and>
         length (filter is_get evs) \<le> length as"
proof (induction as arbitrary: w)
  case Nil
  show ?case by simp
next
  case (Cons a as)
  define w1 where "w1 = snd (http_get e url w)"
  have t1: "trace w1 = trace w @ [Get url]" by (simp add: w1_def http_get_simps)
  have hg: "http_get e url w = (net e url (requests w), w1)"
    by (simp add: w1_def http_get_def)
  from Cons.IH [of "sleep delay w1"] obtain evs where
    evs: "trace (snd (scrape_attempts frepr e url retries delay as (sleep delay w1))) =
            trace (sleep delay w1) @ evs"
      "retries_wait delay evs" "evs = [] \<or> hd evs = Get url" "length (filter is_get evs) \<le> length as"
    by blast
  have again: "\<exists>evs'. trace (snd (scrape_attempts frepr e url retries delay as (sleep delay w1))) =
       trace w @ evs' \<and> retries_wait delay evs' \<and> (evs' = [] \<or> hd evs' = Get url) \<and>
       length (filter is_get evs') \<le> length (a # as)"
  proof (intro exI conjI)
    show "trace (snd (scrape_attempts frepr e url retries delay as (sleep delay w1))) =
       trace w @ (Get url # Sleep delay # evs)"
      using evs(1) by (simp add: sleep_simps t1)
    show "retries_wait delay (Get url # Sleep delay # evs)"
      using evs(2,3) by (cases evs) auto
    show "Get url # Sleep delay # evs = [] \<or> hd (Get url # Sleep delay # evs) = Get url" by simp
    show "length (filter is_get (Get url # Sleep delay # evs)) \<le> length (a # as)"
      using evs(4) by simp
  qed
  have stop: "\<exists>evs'. trace w1 = trace w @ evs' \<and> retries_wait delay evs' \<and>
       (evs' = [] \<or> hd evs' = Get url) \<and> length (filter is_get evs') \<le> length (a # as)"
    by (rule exI [of _ "[Get url]"]) (simp add: t1)
  show ?case
    using again stop
    by (simp add: hg split: reply.splits option.splits)
qed

text \<open>Without a reply of status 200 with a body, the attempt loop returns no records.\<close>
lemma scrape_attempts_no_ok:
  "(\<forall>i < length as. \<not> is_ok (net e url (requests w + i))) \<Longrightarrow>
   fst (scrape_attempts frepr e url retries delay as w) = []"
proof (induction as arbitrary: w)
  case Nil
  show ?case by simp
next
  case (Cons a as)
  define w1 where "w1 = snd (http_get e url w)"
  have hg: "http_get e url w = (net e url (requests w), w1)"
    by (simp add: w1_def http_get_def)
  have r1: "requests (sleep delay w1) = Suc (requests w)"
    by (simp add: w1_def sleep_simps http_get_simps)
  have "\<forall>i < length as. \<not> is_ok (net e url (requests (sleep delay w1) + i))"
    using Cons.prems r1 by auto
  from Cons.IH [OF this] have ih: "fst (scrape_attempts frepr e url retries delay as (sleep delay w1)) = []" .
  from Cons.prems have n0: "\<not> is_ok (net e url (requests w))" by auto
  show ?case
    using ih n0 by (cases "net e url (requests w)") (auto simp: hg split: option.splits)
qed

text \<open>The page of one listing gives one record.\<close>
lemma page_records_one_listing: "length (page_records frepr page_one_listing) = 1"
  by (simp add: page_records_def listing_elements_def page_one_listing_def listing_est_def
      dom_defs split_ws_def is_space_def process_listing_est [unfolded listing_est_def])

lemma scrape_page_once:
  "scrape_page frepr e url w =
     ((case net e url (requests w) of
         Reply status (Some soup) \<Rightarrow> if status = 200 then page_records frepr soup else []
       | _ \<Rightarrow> []),
      w\<lparr>requests := Suc (requests w), trace := trace w @ [Get url]\<rparr>)"
  by (simp add: scrape_page_def max_retries_def http_get_def split: reply.splits option.splits)

text \<open>
  C3. The page fetch never retries. The comment of line 151 announces one retry, and the
  branches of lines 160 to 162 and 196 to 198 would wait \<open>retry_delay\<close> = 2 seconds and try
  again; but \<open>range(max_retries)\<close> counts attempts, so with \<open>max_retries = 1\<close> the test
  \<open>attempt < max_retries - 1\<close> is never true. For every URL \<open>scrape_page\<close> issues exactly one
  GET, never sleeps, and returns the records of a readable reply of status 200 and the
  empty list for every other reply (403, another status, an exception), raising nothing.
  When the first GET is answered 403 and a second one would be answered 200 with a
  listing, \<open>scrape_page\<close> returns the empty list after one GET; the same loop with two
  attempts sleeps 2 seconds, repeats the GET and returns the record.
\<close>
theorem scrape_page_no_retry:
  "scrape_page frepr e url w =
     ((case net e url (requests w) of
         Reply status (Some soup) \<Rightarrow> if status = 200 then page_records frepr soup else []
       | _ \<Rightarrow> []),
      w\<lparr>requests := Suc (requests w), trace := trace w @ [Get url]\<rparr>) \<and>
   scrape_page frepr env_403_then_ok url world0 =
     ([], world0\<lparr>requests := 1, trace := [Get url]\<rparr>) \<and>
   new_events world0
     (snd (scrape_attempts frepr env_403_then_ok url 2 retry_delay [0..<2] world0)) =
     [Get url, Sleep 2, Get url] \<and>
   fst (scrape_attempts frepr env_403_then_ok url 2 retry_delay [0..<2] world0) =
     page_records frepr page_one_listing \<and>
   length (page_records frepr page_one_listing) = 1"
proof (intro conjI)
  show "scrape_page frepr e url w =
     ((case net e url (requests w) of
         Reply status (Some soup) \<Rightarrow> if status = 200 then page_records frepr soup else []
       | _ \<Rightarrow> []),
      w\<lparr>requests := Suc (requests w), trace := trace w @ [Get url]\<rparr>)"
    by (rule scrape_page_once)
  show "scrape_page frepr env_403_then_ok url world0 =
     ([], world0\<lparr>requests := 1, trace := [Get url]\<rparr>)"
    by (simp add: scrape_page_once env_403_then_ok_def world0_def)
  show "new_events world0
     (snd (scrape_attempts frepr env_403_then_ok url 2 retry_delay [0..<2] world0)) =
     [Get url, Sleep 2, Get url]"
    by (simp add: new_events_def env_403_then_ok_def world0_def http_get_def sleep_def
        retry_delay_def upt_rec)
  show "fst (scrape_attempts frepr env_403_then_ok url 2 retry_delay [0..<2] world0) =
     page_records frepr page_one_listing"
    by (simp add: env_403_then_ok_def world0_def http_get_def sleep_def retry_delay_def upt_rec)
  show "length (page_records frepr page_one_listing) = 1"
    by (rule page_records_one_listing)
qed

section \<open>The total page count: results\<close>







lemma starts_with_of:
  "starts_with ''of'' s \<longleftrightarrow> (\<exists>r. s = CHR ''o'' # CHR ''f'' # r)"
  by (cases s; cases "tl s") auto








lemma page_12: "''Page 1 of 12'' = ''Page 1 '' @ ''of '' @ str_nat 12"
  by (simp add: digit_char_def)


lemma total_pages_many: "total_pages_of (Reply 200 (Some page_1_of_many)) = 1"
  by (simp add: total_pages_of_def total_pages_of_text_def page_1_of_many_def dom_defs text_defs
      split_loop.simps)




end
